theory Spec2Isabelle
  imports Main "HOL-Library.Word"
begin

unbundle bit_operations_syntax

section \<open>Tegra USB PHY and EHCI link state machine\<close>

text \<open>
  The development follows \<^verbatim>\<open>arch/arm/mach-tegra/usb_phy.c\<close> and
  \<^verbatim>\<open>drivers/usb/host/ehci-tegra.c\<close> as they are built for the N1 board
  (\<^verbatim>\<open>CONFIG_MACH_N1\<close> defined): every \<^verbatim>\<open>#ifdef CONFIG_MACH_N1\<close> branch is
  the one modelled, every \<^verbatim>\<open>#ifndef CONFIG_MACH_N1\<close> branch is left out.
\<close>

subsection \<open>Machine types and error numbers\<close>

type_synonym u16 = "16 word"
type_synonym u32 = "32 word"

definition EINVAL :: int where "EINVAL = 22"
definition ENOMEM :: int where "ENOMEM = 12"
definition ENXIO :: int where "ENXIO = 6"
definition EPIPE :: int where "EPIPE = 32"
definition ENOTCONN :: int where "ENOTCONN = 107"

subsection \<open>The environment of the driver\<close>

text \<open>
  The hardware registers are volatile and the GPIO lines are driven by the modem, so a
  read does not return what was last written. The model makes no assumption about the
  device: the value of the n-th read the driver performs (a register read, a GPIO level,
  the result of a kernel service) is \<open>inp w n\<close>, an arbitrary sequence. \<open>clock\<close> counts
  the reads performed so far, \<open>usecs\<close> adds up the delays the driver has waited
  (\<^verbatim>\<open>udelay\<close>, \<^verbatim>\<open>mdelay\<close>, \<^verbatim>\<open>msleep\<close>) and \<open>trace\<close> records, oldest first,
  everything the driver does to the outside: register writes (\<open>Writel addr val\<close>),
  stores through a raw pointer, GPIO writes, clock operations, messages and calls into
  other kernel code.

  The host controller driver is a second layer on the same environment. Its writes to
  the EHCI operational registers are \<open>Ehci_writel reg val\<close>. Its calls of the PHY
  verbs of \<^verbatim>\<open>usb_phy.c\<close> are \<open>Phy op ready ret\<close>: \<open>ret\<close> is what the verb
  returned (0 for a verb that returns nothing) and \<open>ready\<close> records the value that
  \<^verbatim>\<open>tegra->device_ready_for_reset\<close> had when the call was made. In that layer the
  result of a PHY verb is a value of the environment, as a register read is: the layer
  is verified for every behaviour of the PHY.
\<close>

datatype gpio =
    GPIO_PHONE_ACTIVE | GPIO_IPC_SLAVE_WAKEUP | GPIO_CP_RST
  | GPIO_ACTIVE_STATE_HSIC | GPIO_HSIC_EN | GPIO_PDA_ACTIVE

datatype ehci_reg =
    Port_status int | Status | Command | Frame_list | Async_next | Configured_flag | Intr_enable

datatype phy_op =
    Phy_power_on | Phy_power_off | Phy_set_phy_clock | Phy_preresume | Phy_postresume
  | Phy_restore_start u32 | Phy_restore_end
  | Phy_bus_connect | Phy_bus_reset | Phy_bus_idle | Phy_is_device_connected

datatype event =
    Writel u32 u32
  | Mem_write u32 u32
  | Ehci_writel ehci_reg u32
  | Phy phy_op bool u32
  | Gpio_set_value gpio int
  | Clk_enable string
  | Clk_disable string
  | Clk_put string
  | Pr_err string
  | Call string

record world =
  inp :: "nat \<Rightarrow> u32"
  clock :: nat
  usecs :: nat
  trace :: "event list"

definition readl :: "u32 \<Rightarrow> world \<Rightarrow> u32 \<times> world" where
  "readl addr w = (inp w (clock w), w\<lparr>clock := Suc (clock w)\<rparr>)"

definition emit :: "event \<Rightarrow> world \<Rightarrow> world" where
  "emit e w = w\<lparr>trace := trace w @ [e]\<rparr>"

definition writel :: "u32 \<Rightarrow> u32 \<Rightarrow> world \<Rightarrow> world" where
  "writel val addr w = emit (Writel addr val) w"

definition udelay :: "nat \<Rightarrow> world \<Rightarrow> world" where
  "udelay n w = w\<lparr>usecs := usecs w + n\<rparr>"

definition mdelay :: "nat \<Rightarrow> world \<Rightarrow> world" where
  "mdelay n w = udelay (1000 * n) w"

definition gpio_get_value :: "gpio \<Rightarrow> world \<Rightarrow> u32 \<times> world" where
  "gpio_get_value g w = (inp w (clock w), w\<lparr>clock := Suc (clock w)\<rparr>)"

definition gpio_set_value :: "gpio \<Rightarrow> int \<Rightarrow> world \<Rightarrow> world" where
  "gpio_set_value g v w = emit (Gpio_set_value g v) w"

subsection \<open>Register offsets and bits of \<^verbatim>\<open>usb_phy.c\<close>\<close>

definition USB_PORTSC1 :: u32 where "USB_PORTSC1 = 0x184"
definition USB_PORTSC1_LS :: "u32 \<Rightarrow> u32" where "USB_PORTSC1_LS x = push_bit 10 (x AND 0x3)"
definition USB_SUSP_CTRL :: u32 where "USB_SUSP_CTRL = 0x400"
definition USB_PHY_CLK_VALID :: u32 where "USB_PHY_CLK_VALID = push_bit 7 1"
definition UTMIP_BIAS_CFG0 :: u32 where "UTMIP_BIAS_CFG0 = 0x80c"
definition UTMIP_OTGPD :: u32 where "UTMIP_OTGPD = push_bit 11 1"
definition UTMIP_BIASPD :: u32 where "UTMIP_BIASPD = push_bit 10 1"
definition UHSIC_STAT_CFG0 :: u32 where "UHSIC_STAT_CFG0 = 0x828"
definition UHSIC_CONNECT_DETECT :: u32 where "UHSIC_CONNECT_DETECT = push_bit 0 1"

subsection \<open>\<^verbatim>\<open>utmi_wait_register\<close>: the bounded register poll\<close>

text \<open>
  \<^verbatim>\<open>do { if ((readl(reg) & mask) == result) return 0; udelay(1); timeout--; } while (timeout);\<close>
  with \<^verbatim>\<open>unsigned long timeout = 50000\<close>. The counter is a 32-bit word as on the ARM
  target; the loop is total for every starting value of the counter.
\<close>

function utmi_wait_loop :: "u32 \<Rightarrow> u32 \<Rightarrow> u32 \<Rightarrow> u32 \<Rightarrow> world \<Rightarrow> int \<times> world" where
  "utmi_wait_loop reg msk result timeout w =
     (if fst (readl reg w) AND msk = result then (0, snd (readl reg w))
      else if timeout - 1 \<noteq> 0
        then utmi_wait_loop reg msk result (timeout - 1) (udelay 1 (snd (readl reg w)))
        else (- 1, udelay 1 (snd (readl reg w))))"
  by pat_completeness auto
termination
  apply (relation "measure (\<lambda>(reg, msk, result, timeout, w). unat (timeout - 1))")
   apply simp
  subgoal for reg msk result timeout w
    using unat_minus_one [of "timeout - 1"] unat_gt_0 [of "timeout - 1"] by simp
  done

declare utmi_wait_loop.simps [simp del]

definition utmi_wait_register :: "u32 \<Rightarrow> u32 \<Rightarrow> u32 \<Rightarrow> world \<Rightarrow> int \<times> world" where
  "utmi_wait_register reg msk result w = utmi_wait_loop reg msk result 50000 w"


text \<open>
  The specification of the poll: \<open>poll_first f msk result c n\<close> is the offset of the
  first of the \<open>n\<close> values \<open>f c, f (c + 1), ...\<close> whose masked value equals
  \<open>result\<close>, if there is one.
\<close>

fun poll_first :: "(nat \<Rightarrow> u32) \<Rightarrow> u32 \<Rightarrow> u32 \<Rightarrow> nat \<Rightarrow> nat \<Rightarrow> nat option" where
  "poll_first f msk result c 0 = None"
| "poll_first f msk result c (Suc n) =
     (if f c AND msk = result then Some 0
      else map_option Suc (poll_first f msk result (Suc c) n))"

text \<open>A device that raises \<^verbatim>\<open>USB_PHY_CLK_VALID\<close> on the third read.\<close>

definition w_ready_third :: world where
  "w_ready_third = \<lparr>inp = (\<lambda>n. if n = 2 then 0x80 else 0), clock = 0, usecs = 0, trace = []\<rparr>"

lemma poll_first_Some:
  "poll_first f msk result c n = Some i \<Longrightarrow>
     i < n \<and> f (c + i) AND msk = result \<and> (\<forall>j<i. f (c + j) AND msk \<noteq> result)"
proof (induction n arbitrary: c i)
  case 0
  then show ?case by simp
next
  case (Suc n)
  show ?case
  proof (cases "f c AND msk = result")
    case True
    with Suc.prems show ?thesis by simp
  next
    case False
    with Suc.prems obtain k where k: "poll_first f msk result (Suc c) n = Some k" "i = Suc k"
      by auto
    from Suc.IH [OF k(1)] have ih: "k < n" "f (Suc c + k) AND msk = result"
      "\<forall>j<k. f (Suc c + j) AND msk \<noteq> result" by auto
    have "\<forall>j<Suc k. f (c + j) AND msk \<noteq> result"
    proof (intro allI impI)
      fix j assume "j < Suc k"
      then show "f (c + j) AND msk \<noteq> result"
        using False ih(3) by (cases j) auto
    qed
    with ih k show ?thesis by simp
  qed
qed

lemma poll_first_None:
  "poll_first f msk result c n = None \<Longrightarrow> \<forall>j<n. f (c + j) AND msk \<noteq> result"
proof (induction n arbitrary: c)
  case 0
  then show ?case by simp
next
  case (Suc n)
  from Suc.prems have nohit: "f c AND msk \<noteq> result"
    and rest: "poll_first f msk result (Suc c) n = None"
    by (auto split: if_splits)
  show ?case
  proof (intro allI impI)
    fix j assume "j < Suc n"
    then show "f (c + j) AND msk \<noteq> result"
      using nohit Suc.IH [OF rest] by (cases j) auto
  qed
qed

lemma utmi_wait_loop_poll:
  "unat timeout = n \<Longrightarrow> 0 < n \<Longrightarrow>
   utmi_wait_loop reg msk result timeout w =
     (case poll_first (inp w) msk result (clock w) n of
        Some i \<Rightarrow> (0, w\<lparr>clock := clock w + Suc i, usecs := usecs w + i\<rparr>)
      | None \<Rightarrow> (- 1, w\<lparr>clock := clock w + n, usecs := usecs w + n\<rparr>))"
proof (induction n arbitrary: timeout w)
  case 0
  then show ?case by simp
next
  case (Suc n)
  have ne: "timeout \<noteq> 0" using Suc.prems by auto
  have u: "unat (timeout - 1) = n"
    using Suc.prems unat_minus_one [OF ne] by simp
  show ?case
  proof (cases "inp w (clock w) AND msk = result")
    case True
    then show ?thesis
      by (subst utmi_wait_loop.simps) (simp add: readl_def)
  next
    case False
    note miss = this
    show ?thesis
    proof (cases "n = 0")
      case True
      with u have "timeout - 1 = 0" by (simp add: unat_eq_0)
      with miss True show ?thesis
        by (subst utmi_wait_loop.simps) (simp add: readl_def udelay_def)
    next
      case False
      then have pos: "0 < n" by simp
      with u have ne1: "timeout - 1 \<noteq> 0" by auto
      let ?w' = "udelay 1 (snd (readl reg w))"
      have step: "utmi_wait_loop reg msk result timeout w =
                  utmi_wait_loop reg msk result (timeout - 1) ?w'"
        using miss ne1 by (subst utmi_wait_loop.simps) (simp add: readl_def)
      show ?thesis
        unfolding step Suc.IH [OF u pos]
        using miss
        by (cases "poll_first (inp w) msk result (Suc (clock w)) n")
           (simp_all add: readl_def udelay_def)
    qed
  qed
qed

lemma utmi_wait_register_poll:
  "utmi_wait_register reg msk result w =
     (case poll_first (inp w) msk result (clock w) 50000 of
        Some i \<Rightarrow> (0, w\<lparr>clock := clock w + Suc i, usecs := usecs w + i\<rparr>)
      | None \<Rightarrow> (- 1, w\<lparr>clock := clock w + 50000, usecs := usecs w + 50000\<rparr>))"
  unfolding utmi_wait_register_def
  by (rule utmi_wait_loop_poll) simp_all

text \<open>
  Claim C8. For any sequence of register read results, \<^verbatim>\<open>utmi_wait_register\<close>
  returns after \<open>n\<close> reads with \<open>1 \<le> n \<le> 50000\<close>, touching nothing but the read
  counter and the delay counter. None of the first \<open>n - 1\<close> reads matched. If the
  \<open>n\<close>-th read matched, the result is 0 and \<open>n - 1\<close> delays of 1 us were spent (it
  returns as soon as the masked read equals the expected value); otherwise the budget is
  exhausted: \<open>n = 50000\<close>, the result is -1 and 50000 us were spent. The function is
  total, so it never loops unboundedly.
\<close>

theorem utmi_wait_register_bounded:
  "\<exists>n. 0 < n \<and> n \<le> 50000 \<and>
       clock (snd (utmi_wait_register reg msk result w)) = clock w + n \<and>
       inp (snd (utmi_wait_register reg msk result w)) = inp w \<and>
       trace (snd (utmi_wait_register reg msk result w)) = trace w \<and>
       (\<forall>j<n - 1. inp w (clock w + j) AND msk \<noteq> result) \<and>
       (if inp w (clock w + (n - 1)) AND msk = result
        then fst (utmi_wait_register reg msk result w) = 0 \<and>
             usecs (snd (utmi_wait_register reg msk result w)) = usecs w + (n - 1)
        else fst (utmi_wait_register reg msk result w) = - 1 \<and> n = 50000 \<and>
             usecs (snd (utmi_wait_register reg msk result w)) = usecs w + 50000)"
proof (cases "poll_first (inp w) msk result (clock w) 50000")
  case None
  from poll_first_None [OF None]
  have no: "\<forall>j<50000. inp w (clock w + j) AND msk \<noteq> result" .
  then have last: "inp w (clock w + (50000 - 1)) AND msk \<noteq> result" by simp
  show ?thesis
    apply (rule exI [of _ 50000])
    using no last by (simp add: utmi_wait_register_poll None)
next
  case (Some i)
  from poll_first_Some [OF Some]
  have i: "i < 50000" "inp w (clock w + i) AND msk = result"
    "\<forall>j<i. inp w (clock w + j) AND msk \<noteq> result" by auto
  show ?thesis
    apply (rule exI [of _ "Suc i"])
    using i by (simp add: utmi_wait_register_poll Some)
qed

theorem utmi_wait_register_bounded_witness:
  "fst (utmi_wait_register USB_SUSP_CTRL USB_PHY_CLK_VALID USB_PHY_CLK_VALID w_ready_third) = 0 \<and>
   clock (snd (utmi_wait_register USB_SUSP_CTRL USB_PHY_CLK_VALID USB_PHY_CLK_VALID w_ready_third)) = 3 \<and>
   usecs (snd (utmi_wait_register USB_SUSP_CTRL USB_PHY_CLK_VALID USB_PHY_CLK_VALID w_ready_third)) = 2"
proof -
  let ?R = "utmi_wait_register USB_SUSP_CTRL USB_PHY_CLK_VALID USB_PHY_CLK_VALID w_ready_third"
  have hit: "\<And>j. (inp w_ready_third (clock w_ready_third + j) AND USB_PHY_CLK_VALID
                 = USB_PHY_CLK_VALID) = (j = 2)"
    by (simp add: w_ready_third_def USB_PHY_CLK_VALID_def)
  from utmi_wait_register_bounded [of USB_SUSP_CTRL USB_PHY_CLK_VALID USB_PHY_CLK_VALID w_ready_third]
  obtain n where n: "0 < n" "n \<le> 50000" "clock (snd ?R) = clock w_ready_third + n"
    "\<forall>j<n - 1. j \<noteq> 2"
    "if n - 1 = 2 then fst ?R = 0 \<and> usecs (snd ?R) = usecs w_ready_third + (n - 1)
     else fst ?R = - 1 \<and> n = 50000 \<and> usecs (snd ?R) = usecs w_ready_third + 50000"
    unfolding hit by blast
  have "n - 1 = 2"
  proof (rule ccontr)
    assume "n - 1 \<noteq> 2"
    with n(5) have "n = 50000" by simp
    with n(4) have "\<forall>j<49999. j \<noteq> (2::nat)" by simp
    then have "(2::nat) < 49999 \<longrightarrow> (2::nat) \<noteq> 2" by (rule spec)
    then show False by simp
  qed
  with n show ?thesis by (simp add: w_ready_third_def)
qed



subsection \<open>The PHY handle\<close>

text \<open>
  \<^verbatim>\<open>struct tegra_usb_phy\<close>, the configuration structures and the enumerations are
  declared in \<^verbatim>\<open>mach/usb_phy.h\<close>; the fields below are the ones the code reads and
  writes (\<open>instance_num\<close> is the field \<^verbatim>\<open>instance\<close>, \<open>phy_freq\<close> the field
  \<^verbatim>\<open>freq\<close> of the handle).
  \<^verbatim>\<open>phy->config\<close> is a \<^verbatim>\<open>void *\<close>: it is null, or points into the
  compiled-in table \<^verbatim>\<open>utmip_default\<close>, or at a structure of the caller. The code
  reads it as a \<^verbatim>\<open>tegra_ulpi_config\<close> on instance 1; \<open>ulpi_inf_type\<close> is that read,
  defined where the pointer is one to a \<^verbatim>\<open>tegra_ulpi_config\<close>.
\<close>

datatype tegra_usb_phy_mode = TEGRA_USB_PHY_MODE_DEVICE | TEGRA_USB_PHY_MODE_HOST

datatype tegra_usb_phy_type = TEGRA_USB_LINK_ULPI | TEGRA_USB_UHSIC | TEGRA_USB_NULL_ULPI

record tegra_utmip_config =
  hssync_start_delay :: "8 word"
  elastic_limit :: "8 word"
  idle_wait_delay :: "8 word"
  term_range_adj :: "8 word"
  xcvr_setup :: "8 word"
  xcvr_lsfslew :: "8 word"
  xcvr_lsrslew :: "8 word"

record tegra_ulpi_config =
  inf_type :: tegra_usb_phy_type
  reset_gpio :: int
  clk :: string
  preinit :: bool
  postinit :: bool

datatype config_ptr =
    Config_null
  | Config_utmip_default int
  | Config_utmip tegra_utmip_config
  | Config_ulpi tegra_ulpi_config

record tegra_xtal_freq =
  freq :: int
  enable_delay :: "8 word"
  stable_count :: "8 word"
  active_delay :: "8 word"
  xtal_freq_count :: u16
  debounce :: u16

text \<open>
  \<^verbatim>\<open>phy->freq\<close> is a pointer to a row of one of the two frequency tables. A pointer
  value that is neither null nor the address of a row is \<open>Freq_wild\<close>.
\<close>

datatype freq_ptr = Freq_null | Freq_row tegra_xtal_freq | Freq_wild u32

record tegra_usb_phy =
  instance_num :: int
  phy_freq :: freq_ptr
  regs :: u32
  pad_regs :: u32
  config :: config_ptr
  mode :: tegra_usb_phy_mode
  regulator_on :: int

definition ulpi_inf_type :: "config_ptr \<Rightarrow> tegra_usb_phy_type option" where
  "ulpi_inf_type c = (case c of Config_ulpi u \<Rightarrow> Some (inf_type u) | _ \<Rightarrow> None)"

definition phy_is_ulpi :: "tegra_usb_phy \<Rightarrow> bool" where
  "phy_is_ulpi phy = (instance_num phy = 1)"

subsection \<open>\<^verbatim>\<open>tegra_usb_phy_is_device_connected\<close>\<close>

definition tegra_usb_phy_is_device_connected :: "tegra_usb_phy \<Rightarrow> world \<Rightarrow> bool \<times> world" where
  "tegra_usb_phy_is_device_connected phy w =
     (let base = regs phy in
      if phy_is_ulpi phy \<and> ulpi_inf_type (config phy) = Some TEGRA_USB_UHSIC then
        (case utmi_wait_register (base + UHSIC_STAT_CFG0)
                UHSIC_CONNECT_DETECT UHSIC_CONNECT_DETECT w of
           (r1, w1) \<Rightarrow>
             if r1 < 0 then (False, emit (Pr_err ''hsic no device connection'') w1)
             else
               (case utmi_wait_register (base + USB_PORTSC1)
                       (USB_PORTSC1_LS 2) (USB_PORTSC1_LS 2) w1 of
                  (r2, w2) \<Rightarrow>
                    if r2 < 0 then (False, emit (Pr_err ''timeout waiting for dplus state'') w2)
                    else (True, w2)))
      else (True, w))"

text \<open>A UTMI handle on instance 0, an HSIC handle on instance 1, and a silent device.\<close>

definition utmi_phy0 :: tegra_usb_phy where
  "utmi_phy0 = \<lparr>instance_num = 0, phy_freq = Freq_null, regs = 0xC5000000, pad_regs = 0xC5000000,
     config = Config_utmip_default 0, mode = TEGRA_USB_PHY_MODE_HOST, regulator_on = 0\<rparr>"

definition hsic_config :: tegra_ulpi_config where
  "hsic_config = \<lparr>inf_type = TEGRA_USB_UHSIC, reset_gpio = 0, clk = [],
     preinit = False, postinit = False\<rparr>"

definition hsic_phy1 :: tegra_usb_phy where
  "hsic_phy1 = \<lparr>instance_num = 1, phy_freq = Freq_null, regs = 0xC5004000, pad_regs = 0,
     config = Config_ulpi hsic_config, mode = TEGRA_USB_PHY_MODE_HOST, regulator_on = 0\<rparr>"

definition w_silent :: world where
  "w_silent = \<lparr>inp = (\<lambda>n. 0), clock = 0, usecs = 0, trace = []\<rparr>"

lemma poll_first_none_iff:
  "(\<forall>j<n. f (c + j) AND msk \<noteq> result) \<Longrightarrow> poll_first f msk result c n = None"
proof (induction n arbitrary: c)
  case 0
  then show ?case by simp
next
  case (Suc n)
  from Suc.prems have "f (c + 0) AND msk \<noteq> result" by blast
  moreover have "\<forall>j<n. f (Suc c + j) AND msk \<noteq> result"
  proof (intro allI impI)
    fix j assume "j < n"
    then have "Suc j < Suc n" by simp
    with Suc.prems have "f (c + Suc j) AND msk \<noteq> result" by blast
    then show "f (Suc c + j) AND msk \<noteq> result" by simp
  qed
  ultimately show ?case using Suc.IH by simp
qed

lemma utmi_wait_register_timeout:
  "(\<forall>j<50000. inp w (clock w + j) AND msk \<noteq> result) \<Longrightarrow>
   utmi_wait_register reg msk result w =
     (- 1, w\<lparr>clock := clock w + 50000, usecs := usecs w + 50000\<rparr>)"
  by (simp add: utmi_wait_register_poll poll_first_none_iff)

lemma utmi_wait_register_hit:
  "inp w (clock w) AND msk = result \<Longrightarrow>
   utmi_wait_register reg msk result w = (0, w\<lparr>clock := Suc (clock w)\<rparr>)"
  unfolding utmi_wait_register_def
  by (subst utmi_wait_loop.simps) (simp add: readl_def)

text \<open>An HSIC handle does observe \<open>False\<close>: on a device that never answers.\<close>

lemma hsic_device_not_connected:
  "fst (tegra_usb_phy_is_device_connected hsic_phy1 w_silent) = False"
proof -
  have "\<forall>j<50000. inp w_silent (clock w_silent + j) AND UHSIC_CONNECT_DETECT
          \<noteq> UHSIC_CONNECT_DETECT"
    by (simp add: w_silent_def UHSIC_CONNECT_DETECT_def)
  from utmi_wait_register_timeout [OF this] show ?thesis
    by (simp add: tegra_usb_phy_is_device_connected_def phy_is_ulpi_def hsic_phy1_def
        ulpi_inf_type_def hsic_config_def Let_def emit_def)
qed

text \<open>
  Claim C9. For a handle that is not an HSIC handle (the instance is not 1, or the
  instance is 1 and its ULPI configuration has an interface type other than UHSIC),
  \<^verbatim>\<open>tegra_usb_phy_is_device_connected\<close> returns true and leaves the environment as it
  was: no register is read, nothing is written or logged. Hence a call that returns
  false was made on an HSIC handle.
\<close>

theorem is_device_connected_non_hsic:
  "(instance_num phy \<noteq> 1 \<or> (\<exists>c. config phy = Config_ulpi c \<and> inf_type c \<noteq> TEGRA_USB_UHSIC)
      \<longrightarrow> tegra_usb_phy_is_device_connected phy w = (True, w)) \<and>
   (fst (tegra_usb_phy_is_device_connected phy w) = False
      \<longrightarrow> instance_num phy = 1 \<and> ulpi_inf_type (config phy) = Some TEGRA_USB_UHSIC)"
proof (intro conjI impI)
  assume "instance_num phy \<noteq> 1 \<or> (\<exists>c. config phy = Config_ulpi c \<and> inf_type c \<noteq> TEGRA_USB_UHSIC)"
  then have "\<not> (phy_is_ulpi phy \<and> ulpi_inf_type (config phy) = Some TEGRA_USB_UHSIC)"
    by (auto simp: phy_is_ulpi_def ulpi_inf_type_def)
  then show "tegra_usb_phy_is_device_connected phy w = (True, w)"
    by (auto simp: tegra_usb_phy_is_device_connected_def Let_def)
next
  assume f: "fst (tegra_usb_phy_is_device_connected phy w) = False"
  have "phy_is_ulpi phy \<and> ulpi_inf_type (config phy) = Some TEGRA_USB_UHSIC"
  proof (rule ccontr)
    assume "\<not> ?thesis"
    then have "tegra_usb_phy_is_device_connected phy w = (True, w)"
      by (auto simp: tegra_usb_phy_is_device_connected_def Let_def)
    with f show False by simp
  qed
  then show "instance_num phy = 1" and "ulpi_inf_type (config phy) = Some TEGRA_USB_UHSIC"
    by (simp_all add: phy_is_ulpi_def)
qed

theorem is_device_connected_non_hsic_witness:
  "instance_num utmi_phy0 \<noteq> 1 \<and>
   tegra_usb_phy_is_device_connected utmi_phy0 w_silent = (True, w_silent) \<and>
   fst (tegra_usb_phy_is_device_connected hsic_phy1 w_silent) = False \<and>
   instance_num hsic_phy1 = 1 \<and> ulpi_inf_type (config hsic_phy1) = Some TEGRA_USB_UHSIC"
proof -
  have a: "instance_num utmi_phy0 \<noteq> 1" by (simp add: utmi_phy0_def)
  from is_device_connected_non_hsic [of utmi_phy0 w_silent] a
  have b: "tegra_usb_phy_is_device_connected utmi_phy0 w_silent = (True, w_silent)" by blast
  from is_device_connected_non_hsic [of hsic_phy1 w_silent] hsic_device_not_connected
  have c: "instance_num hsic_phy1 = 1 \<and> ulpi_inf_type (config hsic_phy1) = Some TEGRA_USB_UHSIC"
    by blast
  from a b c hsic_device_not_connected show ?thesis by simp
qed


subsection \<open>The shared UTMI pad: \<^verbatim>\<open>utmip_pad_power_on\<close> and \<^verbatim>\<open>utmip_pad_power_off\<close>\<close>

text \<open>
  \<^verbatim>\<open>static int utmip_pad_count\<close> is shared by all PHY instances. It is a 32-bit
  \<^verbatim>\<open>int\<close>: the model keeps it as a 32-bit word read with \<open>sint\<close>, and the two
  functions take and return the pair of the counter and the environment.
  \<^verbatim>\<open>if (utmip_pad_count++ == 0)\<close> tests the old value and always increments;
  \<^verbatim>\<open>if (--utmip_pad_count == 0)\<close> decrements and tests the new value.
\<close>

type_synonym s32 = "32 word"

definition utmip_pad_power_on :: "tegra_usb_phy \<Rightarrow> s32 \<times> world \<Rightarrow> s32 \<times> world" where
  "utmip_pad_power_on phy s =
     (let base = pad_regs phy;
          utmip_pad_count = fst s;
          w1 = emit (Clk_enable ''utmip-pad'') (snd s);
          w2 = (if utmip_pad_count = 0 then
                  (case readl (base + UTMIP_BIAS_CFG0) w1 of
                     (val, wr) \<Rightarrow>
                       writel (val AND NOT (UTMIP_OTGPD OR UTMIP_BIASPD))
                         (base + UTMIP_BIAS_CFG0) wr)
                else w1)
      in (utmip_pad_count + 1, emit (Clk_disable ''utmip-pad'') w2))"

definition utmip_pad_power_off :: "tegra_usb_phy \<Rightarrow> s32 \<times> world \<Rightarrow> int \<times> s32 \<times> world" where
  "utmip_pad_power_off phy s =
     (let base = pad_regs phy;
          utmip_pad_count = fst s
      in if utmip_pad_count = 0
         then (- EINVAL, utmip_pad_count,
               emit (Pr_err ''utmip pad already powered off'') (snd s))
         else
           (let w1 = emit (Clk_enable ''utmip-pad'') (snd s);
                utmip_pad_count = utmip_pad_count - 1;
                w2 = (if utmip_pad_count = 0 then
                        (case readl (base + UTMIP_BIAS_CFG0) w1 of
                           (val, wr) \<Rightarrow>
                             writel (val OR (UTMIP_OTGPD OR UTMIP_BIASPD))
                               (base + UTMIP_BIAS_CFG0) wr)
                      else w1)
            in (0, utmip_pad_count, emit (Clk_disable ''utmip-pad'') w2)))"

text \<open>
  A sequence of calls on the pad, made by any PHY handles in any order. \<open>pad_run\<close>
  returns the results of the \<^verbatim>\<open>utmip_pad_power_off\<close> calls, the counter and the
  environment. \<open>writes\<close> are the register writes of a trace, in order.
\<close>

datatype pad_call = Pad_power_on tegra_usb_phy | Pad_power_off tegra_usb_phy

fun pad_step :: "int list \<times> s32 \<times> world \<Rightarrow> pad_call \<Rightarrow> int list \<times> s32 \<times> world" where
  "pad_step (rets, s) (Pad_power_on phy) = (rets, utmip_pad_power_on phy s)"
| "pad_step (rets, s) (Pad_power_off phy) =
     (rets @ [fst (utmip_pad_power_off phy s)], snd (utmip_pad_power_off phy s))"

definition pad_run :: "pad_call list \<Rightarrow> int list \<times> s32 \<times> world \<Rightarrow> int list \<times> s32 \<times> world" where
  "pad_run calls s = foldl pad_step s calls"

fun is_writel :: "event \<Rightarrow> bool" where
  "is_writel (Writel a v) = True"
| "is_writel _ = False"

definition writes :: "world \<Rightarrow> event list" where
  "writes w = filter is_writel (trace w)"


definition bias_power_up :: "tegra_usb_phy \<Rightarrow> u32 \<Rightarrow> event" where
  "bias_power_up phy v =
     Writel (pad_regs phy + UTMIP_BIAS_CFG0) (v AND NOT (UTMIP_OTGPD OR UTMIP_BIASPD))"

definition bias_power_down :: "tegra_usb_phy \<Rightarrow> u32 \<Rightarrow> event" where
  "bias_power_down phy v =
     Writel (pad_regs phy + UTMIP_BIAS_CFG0) (v OR (UTMIP_OTGPD OR UTMIP_BIASPD))"

definition utmi_phy2 :: tegra_usb_phy where
  "utmi_phy2 = \<lparr>instance_num = 2, phy_freq = Freq_null, regs = 0xC5008000, pad_regs = 0xC5000000,
     config = Config_utmip_default 2, mode = TEGRA_USB_PHY_MODE_HOST, regulator_on = 0\<rparr>"

lemma sint_of_nat_s32: "c < 2 ^ 31 \<Longrightarrow> sint (of_nat c :: s32) = int c"
  by (simp add: signed_of_nat signed_take_bit_int_eq_self)

lemma pad_power_on_nonzero:
  "0 < c \<Longrightarrow> c < 2 ^ 32 \<Longrightarrow>
   utmip_pad_power_on phy (of_nat c, w) =
     (of_nat (Suc c), emit (Clk_disable ''utmip-pad'') (emit (Clk_enable ''utmip-pad'') w))"
  by (simp add: utmip_pad_power_on_def Let_def of_nat_neq_0)

lemma pad_power_on_zero:
  "utmip_pad_power_on phy (0, w) =
     (1, emit (Clk_disable ''utmip-pad'')
           (writel (inp w (clock w) AND NOT (UTMIP_OTGPD OR UTMIP_BIASPD))
              (pad_regs phy + UTMIP_BIAS_CFG0)
              ((emit (Clk_enable ''utmip-pad'') w)\<lparr>clock := Suc (clock w)\<rparr>)))"
  by (simp add: utmip_pad_power_on_def Let_def readl_def emit_def)

lemma pad_power_off_zero:
  "utmip_pad_power_off phy (0, w) =
     (- EINVAL, 0, emit (Pr_err ''utmip pad already powered off'') w)"
  by (simp add: utmip_pad_power_off_def)

lemma pad_power_off_many:
  "1 < c \<Longrightarrow> c < 2 ^ 32 \<Longrightarrow>
   utmip_pad_power_off phy (of_nat c, w) =
     (0, of_nat (c - 1), emit (Clk_disable ''utmip-pad'') (emit (Clk_enable ''utmip-pad'') w))"
proof -
  assume c: "1 < c" "c < 2 ^ 32"
  define x :: s32 where "x = of_nat c"
  have a: "x \<noteq> 0" unfolding x_def by (rule of_nat_neq_0) (use c in simp_all)
  have b: "x - 1 = of_nat (c - 1)" unfolding x_def using c by simp
  have "(of_nat (c - 1) :: s32) \<noteq> 0" by (rule of_nat_neq_0) (use c in simp_all)
  then have d: "x - 1 \<noteq> 0" unfolding b .
  have "utmip_pad_power_off phy (x, w) =
     (0, x - 1, emit (Clk_disable ''utmip-pad'') (emit (Clk_enable ''utmip-pad'') w))"
    using a d by (simp add: utmip_pad_power_off_def Let_def)
  then show ?thesis unfolding b unfolding x_def .
qed

lemma pad_power_off_last:
  "utmip_pad_power_off phy (1, w) =
     (0, 0, emit (Clk_disable ''utmip-pad'')
           (writel (inp w (clock w) OR (UTMIP_OTGPD OR UTMIP_BIASPD))
              (pad_regs phy + UTMIP_BIAS_CFG0)
              ((emit (Clk_enable ''utmip-pad'') w)\<lparr>clock := Suc (clock w)\<rparr>)))"
  by (simp add: utmip_pad_power_off_def Let_def readl_def emit_def)

lemma writes_emit_clk [simp]:
  "writes (emit (Clk_enable n) w) = writes w"
  "writes (emit (Clk_disable n) w) = writes w"
  "writes (emit (Pr_err m) w) = writes w"
  "writes (writel v a w) = writes w @ [Writel a v]"
  "writes (w\<lparr>clock := k\<rparr>) = writes w"
  by (simp_all add: writes_def emit_def writel_def)

lemma frame_emit [simp]:
  "clock (emit e w) = clock w" "inp (emit e w) = inp w"
  "clock (writel v a w) = clock w" "inp (writel v a w) = inp w"
  by (simp_all add: emit_def writel_def)

lemma pad_run_on:
  "0 < c \<Longrightarrow> c + length ps < 2 ^ 32 \<Longrightarrow>
   \<exists>w'. pad_run (map Pad_power_on ps) (rets, of_nat c, w) = (rets, of_nat (c + length ps), w')
       \<and> writes w' = writes w \<and> clock w' = clock w \<and> inp w' = inp w"
proof (induction ps arbitrary: c w)
  case Nil
  then show ?case by (simp add: pad_run_def)
next
  case (Cons p ps)
  let ?w1 = "emit (Clk_disable ''utmip-pad'') (emit (Clk_enable ''utmip-pad'') w)"
  have c32: "c < 2 ^ 32" using Cons.prems by simp
  have step: "pad_run (map Pad_power_on (p # ps)) (rets, of_nat c, w) =
              pad_run (map Pad_power_on ps) (rets, of_nat (Suc c), ?w1)"
    using pad_power_on_nonzero [OF Cons.prems(1) c32] by (simp add: pad_run_def)
  have "0 < Suc c" "Suc c + length ps < 2 ^ 32" using Cons.prems by simp_all
  from Cons.IH [OF this, of ?w1] obtain w' where
    "pad_run (map Pad_power_on ps) (rets, of_nat (Suc c), ?w1) =
       (rets, of_nat (Suc c + length ps), w')"
    "writes w' = writes ?w1" "clock w' = clock ?w1" "inp w' = inp ?w1" by blast
  then show ?case unfolding step by simp
qed

lemma pad_run_off:
  "length ps < c \<Longrightarrow> c < 2 ^ 32 \<Longrightarrow>
   \<exists>w'. pad_run (map Pad_power_off ps) (rets, of_nat c, w) =
          (rets @ replicate (length ps) 0, of_nat (c - length ps), w')
       \<and> writes w' = writes w \<and> clock w' = clock w \<and> inp w' = inp w"
proof (induction ps arbitrary: c w rets)
  case Nil
  then show ?case by (simp add: pad_run_def)
next
  case (Cons p ps)
  let ?w1 = "emit (Clk_disable ''utmip-pad'') (emit (Clk_enable ''utmip-pad'') w)"
  have c1: "1 < c" using Cons.prems by simp
  have step: "pad_run (map Pad_power_off (p # ps)) (rets, of_nat c, w) =
              pad_run (map Pad_power_off ps) (rets @ [0], of_nat (c - 1), ?w1)"
    using pad_power_off_many [OF c1 Cons.prems(2)] by (simp add: pad_run_def)
  have "length ps < c - 1" "c - 1 < 2 ^ 32" using Cons.prems by simp_all
  from Cons.IH [OF this, of "rets @ [0]" ?w1] obtain w' where
    "pad_run (map Pad_power_off ps) (rets @ [0], of_nat (c - 1), ?w1) =
       ((rets @ [0]) @ replicate (length ps) 0, of_nat (c - 1 - length ps), w')"
    "writes w' = writes ?w1" "clock w' = clock ?w1" "inp w' = inp ?w1" by blast
  then show ?case unfolding step by (simp add: replicate_app_Cons_same)
qed


lemma pad_run_append: "pad_run (a @ b) s = pad_run b (pad_run a s)"
  by (simp add: pad_run_def)

lemma pad_run_all_on:
  assumes "ons \<noteq> []" "length ons < 2 ^ 32"
  shows "\<exists>w'. pad_run (map Pad_power_on ons) (rets, 0, w) = (rets, of_nat (length ons), w')
       \<and> writes w' = writes w @ [bias_power_up (hd ons) (inp w (clock w))]
       \<and> clock w' = Suc (clock w) \<and> inp w' = inp w"
proof -
  from assms(1) obtain p ps where ons: "ons = p # ps" by (cases ons) auto
  have "\<exists>w1. utmip_pad_power_on p (0, w) = (of_nat 1, w1) \<and>
          writes w1 = writes w @ [bias_power_up p (inp w (clock w))] \<and>
          clock w1 = Suc (clock w) \<and> inp w1 = inp w"
    by (simp add: pad_power_on_zero bias_power_up_def)
  then obtain w1 where first: "utmip_pad_power_on p (0, w) = (of_nat 1, w1)"
    "writes w1 = writes w @ [bias_power_up p (inp w (clock w))]"
    "clock w1 = Suc (clock w)" "inp w1 = inp w" by blast
  have "0 < (1::nat)" "1 + length ps < 2 ^ 32" using assms(2) ons by simp_all
  from pad_run_on [OF this, of rets w1] obtain w' where
    "pad_run (map Pad_power_on ps) (rets, of_nat 1, w1) = (rets, of_nat (1 + length ps), w')"
    "writes w' = writes w1" "clock w' = clock w1" "inp w' = inp w1" by blast
  with first show ?thesis unfolding ons by (simp add: pad_run_def)
qed

lemma pad_run_all_off:
  assumes "offs \<noteq> []" "length offs < 2 ^ 32"
  shows "\<exists>w'. pad_run (map Pad_power_off offs) (rets, of_nat (length offs), w) =
            (rets @ replicate (length offs) 0, 0, w')
       \<and> writes w' = writes w @ [bias_power_down (last offs) (inp w (clock w))]
       \<and> clock w' = Suc (clock w) \<and> inp w' = inp w"
proof -
  from assms(1) have offs: "offs = butlast offs @ [last offs]" by simp
  let ?ps = "butlast offs" and ?p = "last offs"
  have len: "length offs = Suc (length ?ps)" using assms(1) by simp
  have "length ?ps < length offs" using len by simp
  from pad_run_off [OF this assms(2), of rets w] obtain w1 where w1:
    "pad_run (map Pad_power_off ?ps) (rets, of_nat (length offs), w) =
       (rets @ replicate (length ?ps) 0, of_nat (length offs - length ?ps), w1)"
    "writes w1 = writes w" "clock w1 = clock w" "inp w1 = inp w" by blast
  have one: "(of_nat (length offs - length ?ps) :: s32) = 1" using len by simp
  have "\<exists>w2. utmip_pad_power_off ?p (1, w1) = (0, 0, w2) \<and>
          writes w2 = writes w1 @ [bias_power_down ?p (inp w1 (clock w1))] \<and>
          clock w2 = Suc (clock w1) \<and> inp w2 = inp w1"
    by (simp add: pad_power_off_last bias_power_down_def)
  then obtain w2 where lastc: "utmip_pad_power_off ?p (1, w1) = (0, 0, w2)"
    "writes w2 = writes w1 @ [bias_power_down ?p (inp w1 (clock w1))]"
    "clock w2 = Suc (clock w1)" "inp w2 = inp w1" by blast
  have "pad_run (map Pad_power_off offs) (rets, of_nat (length offs), w) =
        pad_run [Pad_power_off ?p] (pad_run (map Pad_power_off ?ps) (rets, of_nat (length offs), w))"
    by (subst offs) (simp only: map_append pad_run_append list.map)
  also have "\<dots> = (rets @ replicate (length ?ps) 0 @ [0], 0, w2)"
    unfolding w1(1) one using lastc(1) by (simp add: pad_run_def)
  also have "rets @ replicate (length ?ps) 0 @ [0] = rets @ replicate (length offs) (0::int)"
    unfolding len by (simp add: replicate_append_same)
  finally show ?thesis using lastc w1 by simp
qed

text \<open>
  Claim C1. Start with the pad count at 0 and make \<open>N\<close> calls of
  \<^verbatim>\<open>utmip_pad_power_on\<close> followed by \<open>N\<close> calls of \<^verbatim>\<open>utmip_pad_power_off\<close>, by any
  handles in any order (\<open>0 < N < 2^31\<close>, the range of the C \<^verbatim>\<open>int\<close>). After the first
  \<open>k\<close> calls, for every \<open>k \<le> 2N\<close>: the count is \<open>k\<close> while powering on and
  \<open>2N - k\<close> while powering off, so it is never negative and ends at 0; every power-off
  returned 0; and the register writes made so far are none for \<open>k = 0\<close>, exactly the
  one write of the first power-on that clears \<^verbatim>\<open>UTMIP_OTGPD | UTMIP_BIASPD\<close> in
  \<^verbatim>\<open>UTMIP_BIAS_CFG0\<close> for \<open>0 < k < 2N\<close>, and that write followed by the one write of
  the last power-off that sets both bits for \<open>k = 2N\<close>. A power-off at count 0
  returns \<open>-EINVAL\<close>, leaves the count at 0 and writes no register.
\<close>

theorem utmip_pad_refcount:
  assumes "length ons = N" "length offs = N" "0 < N" "N < 2 ^ 31" "k \<le> 2 * N"
  shows "(case pad_run (take k (map Pad_power_on ons @ map Pad_power_off offs)) ([], 0, w) of
           (rets, utmip_pad_count, w') \<Rightarrow>
             sint utmip_pad_count = int (if k \<le> N then k else 2 * N - k) \<and>
             rets = replicate (k - N) 0 \<and>
             writes w' = writes w @
               (if k = 0 then []
                else if k < 2 * N then [bias_power_up (hd ons) (inp w (clock w))]
                else [bias_power_up (hd ons) (inp w (clock w)),
                      bias_power_down (last offs) (inp w (Suc (clock w)))])) \<and>
         utmip_pad_power_off phy (0, w) =
           (- EINVAL, 0, emit (Pr_err ''utmip pad already powered off'') w) \<and>
         writes (emit (Pr_err ''utmip pad already powered off'') w) = writes w"
proof -
  let ?script = "map Pad_power_on ons @ map Pad_power_off offs"
  have N32: "N < 2 ^ 32" using assms(4) by simp
  have run: "case pad_run (take k ?script) ([], 0, w) of
           (rets, utmip_pad_count, w') \<Rightarrow>
             sint utmip_pad_count = int (if k \<le> N then k else 2 * N - k) \<and>
             rets = replicate (k - N) 0 \<and>
             writes w' = writes w @
               (if k = 0 then []
                else if k < 2 * N then [bias_power_up (hd ons) (inp w (clock w))]
                else [bias_power_up (hd ons) (inp w (clock w)),
                      bias_power_down (last offs) (inp w (Suc (clock w)))])"
  proof -
    consider (zero) "k = 0" | (rising) "0 < k" "k \<le> N" | (falling) "N < k" "k < 2 * N"
      | (complete) "k = 2 * N" using assms(5) by linarith
    then show ?thesis
    proof cases
      case zero
      then show ?thesis by (simp add: pad_run_def)
    next
      case rising
      let ?ps = "take k ons"
      have tk: "take k ?script = map Pad_power_on ?ps"
        using rising assms(1) by (simp add: take_map)
      have ne: "?ps \<noteq> []" "length ?ps < 2 ^ 32" "length ?ps = k" "hd ?ps = hd ons"
        using rising assms(1) N32 by auto
      from pad_run_all_on [OF ne(1,2), of "[]" w] obtain w' where
        "pad_run (map Pad_power_on ?ps) ([], 0, w) = ([], of_nat (length ?ps), w')"
        "writes w' = writes w @ [bias_power_up (hd ?ps) (inp w (clock w))]" by blast
      moreover have "sint (of_nat k :: s32) = int k"
        using rising assms(4) by (intro sint_of_nat_s32) simp
      ultimately show ?thesis
        unfolding tk using rising ne(3,4) by simp
    next
      case falling
      let ?qs = "take (k - N) offs"
      have tk: "take k ?script = map Pad_power_on ons @ map Pad_power_off ?qs"
        using falling assms(1) by (simp add: take_map)
      have ne: "ons \<noteq> []" "length ons < 2 ^ 32" using assms(1,3) N32 by auto
      from pad_run_all_on [OF ne, of "[]" w] obtain w1 where w1:
        "pad_run (map Pad_power_on ons) ([], 0, w) = ([], of_nat N, w1)"
        "writes w1 = writes w @ [bias_power_up (hd ons) (inp w (clock w))]"
        unfolding assms(1) by blast
      have lq: "length ?qs = k - N" "length ?qs < N" using falling assms(2) by auto
      from pad_run_off [OF lq(2) N32, of "[]" w1] obtain w' where
        "pad_run (map Pad_power_off ?qs) ([], of_nat N, w1) =
           ([] @ replicate (length ?qs) 0, of_nat (N - length ?qs), w')"
        "writes w' = writes w1" by blast
      moreover have "sint (of_nat (N - (k - N)) :: s32) = int (N - (k - N))"
        using assms(4) by (intro sint_of_nat_s32) simp
      moreover have "N - (k - N) = 2 * N - k" using falling by simp
      ultimately show ?thesis
        unfolding tk pad_run_append w1(1) using falling w1(2) lq(1) by simp
    next
      case complete
      have tk: "take k ?script = map Pad_power_on ons @ map Pad_power_off offs"
        using complete assms(1,2) by simp
      have ne: "ons \<noteq> []" "length ons < 2 ^ 32" "offs \<noteq> []" "length offs < 2 ^ 32"
        using assms(1,2,3) N32 by auto
      from pad_run_all_on [OF ne(1,2), of "[]" w] obtain w1 where w1:
        "pad_run (map Pad_power_on ons) ([], 0, w) = ([], of_nat (length offs), w1)"
        "writes w1 = writes w @ [bias_power_up (hd ons) (inp w (clock w))]"
        "clock w1 = Suc (clock w)" "inp w1 = inp w"
        unfolding assms(1,2) by blast
      from pad_run_all_off [OF ne(3,4), of "[]" w1] obtain w' where
        "pad_run (map Pad_power_off offs) ([], of_nat (length offs), w1) =
           ([] @ replicate (length offs) 0, 0, w')"
        "writes w' = writes w1 @ [bias_power_down (last offs) (inp w1 (clock w1))]" by blast
      then show ?thesis
        unfolding tk pad_run_append w1(1) using complete w1(2,3,4) assms(2,3) by simp
    qed
  qed
  show ?thesis
    using run by (simp add: pad_power_off_zero)
qed



theorem utmip_pad_refcount_witness:
  "length [utmi_phy0, utmi_phy2] = 2 \<and> length [utmi_phy2, utmi_phy0] = 2 \<and>
   (0::nat) < 2 \<and> (2::nat) < 2 ^ 31 \<and> (4::nat) \<le> 2 * 2 \<and>
   fst (pad_run (map Pad_power_on [utmi_phy0, utmi_phy2] @
                 map Pad_power_off [utmi_phy2, utmi_phy0]) ([], 0, w_silent)) = [0, 0] \<and>
   sint (fst (snd (pad_run (map Pad_power_on [utmi_phy0, utmi_phy2] @
                 map Pad_power_off [utmi_phy2, utmi_phy0]) ([], 0, w_silent)))) = 0 \<and>
   writes (snd (snd (pad_run (map Pad_power_on [utmi_phy0, utmi_phy2] @
                 map Pad_power_off [utmi_phy2, utmi_phy0]) ([], 0, w_silent)))) =
     [Writel 0xC500080C 0, Writel 0xC500080C 0xC00]"
proof -
  have h: "length [utmi_phy0, utmi_phy2] = 2" "length [utmi_phy2, utmi_phy0] = 2"
    "(0::nat) < 2" "(2::nat) < 2 ^ 31" "(4::nat) \<le> 2 * 2" by simp_all
  have v: "bias_power_up utmi_phy0 0 = Writel 0xC500080C 0"
    "bias_power_down utmi_phy0 0 = Writel 0xC500080C 0xC00"
    by (simp_all add: bias_power_up_def bias_power_down_def utmi_phy0_def UTMIP_BIAS_CFG0_def
        UTMIP_OTGPD_def UTMIP_BIASPD_def)
  have e: "writes w_silent = []" "inp w_silent = (\<lambda>n. 0)"
    by (simp_all add: writes_def w_silent_def)
  have r: "replicate 2 (0::int) = [0, 0]" by (simp add: numeral_2_eq_2)
  from utmip_pad_refcount [OF h, of w_silent utmi_phy0]
  have "sint (fst (snd (pad_run (map Pad_power_on [utmi_phy0, utmi_phy2] @
                 map Pad_power_off [utmi_phy2, utmi_phy0]) ([], 0, w_silent)))) = 0 \<and>
        fst (pad_run (map Pad_power_on [utmi_phy0, utmi_phy2] @
                 map Pad_power_off [utmi_phy2, utmi_phy0]) ([], 0, w_silent)) = replicate 2 0 \<and>
        writes (snd (snd (pad_run (map Pad_power_on [utmi_phy0, utmi_phy2] @
                 map Pad_power_off [utmi_phy2, utmi_phy0]) ([], 0, w_silent)))) =
          [Writel 0xC500080C 0, Writel 0xC500080C 0xC00]"
    by (simp add: v e split_beta)
  then show ?thesis unfolding r by simp
qed


subsection \<open>\<^verbatim>\<open>tegra_usb_phy_open\<close>\<close>

text \<open>
  The two calibration tables and the compiled-in UTMI defaults. The HSIC table has no
  \<^verbatim>\<open>debounce\<close> initialiser, so that field is 0; \<^verbatim>\<open>utmip_default\<close> has designated
  initialisers for the indices 0 and 2, so the element at index 1 is all zero.
\<close>

definition tegra_freq_table :: "tegra_xtal_freq list" where
  "tegra_freq_table =
     [\<lparr>freq = 12000000, enable_delay = 0x02, stable_count = 0x2F, active_delay = 0x04,
       xtal_freq_count = 0x76, debounce = 0x7530\<rparr>,
      \<lparr>freq = 13000000, enable_delay = 0x02, stable_count = 0x33, active_delay = 0x05,
       xtal_freq_count = 0x7F, debounce = 0x7EF4\<rparr>,
      \<lparr>freq = 19200000, enable_delay = 0x03, stable_count = 0x4B, active_delay = 0x06,
       xtal_freq_count = 0xBB, debounce = 0xBB80\<rparr>,
      \<lparr>freq = 26000000, enable_delay = 0x04, stable_count = 0x66, active_delay = 0x09,
       xtal_freq_count = 0xFE, debounce = 0xFDE8\<rparr>]"

definition tegra_uhsic_freq_table :: "tegra_xtal_freq list" where
  "tegra_uhsic_freq_table =
     [\<lparr>freq = 12000000, enable_delay = 0x02, stable_count = 0x2F, active_delay = 0x0,
       xtal_freq_count = 0x1CA, debounce = 0\<rparr>,
      \<lparr>freq = 13000000, enable_delay = 0x02, stable_count = 0x33, active_delay = 0x0,
       xtal_freq_count = 0x1F0, debounce = 0\<rparr>,
      \<lparr>freq = 19200000, enable_delay = 0x03, stable_count = 0x4B, active_delay = 0x0,
       xtal_freq_count = 0x2DD, debounce = 0\<rparr>,
      \<lparr>freq = 26000000, enable_delay = 0x04, stable_count = 0x66, active_delay = 0x0,
       xtal_freq_count = 0x3E0, debounce = 0\<rparr>]"

definition utmip_default :: "tegra_utmip_config list" where
  "utmip_default =
     [\<lparr>hssync_start_delay = 9, elastic_limit = 16, idle_wait_delay = 17, term_range_adj = 6,
       xcvr_setup = 11, xcvr_lsfslew = 1, xcvr_lsrslew = 1\<rparr>,
      \<lparr>hssync_start_delay = 0, elastic_limit = 0, idle_wait_delay = 0, term_range_adj = 0,
       xcvr_setup = 0, xcvr_lsfslew = 0, xcvr_lsrslew = 0\<rparr>,
      \<lparr>hssync_start_delay = 9, elastic_limit = 16, idle_wait_delay = 17, term_range_adj = 6,
       xcvr_setup = 9, xcvr_lsfslew = 2, xcvr_lsrslew = 2\<rparr>]"

definition utmip_config_at :: "config_ptr \<Rightarrow> tegra_utmip_config option" where
  "utmip_config_at c =
     (case c of
        Config_utmip_default i \<Rightarrow>
          (if 0 \<le> i \<and> i < 3 then Some (utmip_default ! nat i) else None)
      | Config_utmip u \<Rightarrow> Some u
      | _ \<Rightarrow> None)"

text \<open>
  What \<^verbatim>\<open>tegra_usb_phy_open\<close> gets from the kernel. \<open>kmalloc\<close> is \<open>None\<close> when the
  allocation fails, and otherwise the content of the memory it returns, which
  \<^verbatim>\<open>kmalloc\<close> does not clear: every field of the new handle starts with whatever the
  memory held. A clock lookup returns a clock or \<^verbatim>\<open>ERR_PTR(e)\<close>; \<open>ioremap\<close> is the
  address returned for the shared pad window (0 on failure); \<open>vbus_irq\<close> is
  \<^verbatim>\<open>usb_phy_data[0].vbus_irq\<close>. The function returns \<^verbatim>\<open>ERR_PTR(err)\<close> as \<open>Inl err\<close>
  and a handle as \<open>Inr phy\<close>, together with what it did to clocks, GPIOs and memory.
  The comparison of the table's \<^verbatim>\<open>int freq\<close> with the \<^verbatim>\<open>unsigned long\<close> rate
  converts the former to 32 bits unsigned.
\<close>

datatype clk_ptr = Clk_ok | Clk_err int

record open_env =
  kmalloc :: "tegra_usb_phy option"
  clk_get_pll_u :: clk_ptr
  parent_rate :: u32
  clk_get_ulpi :: clk_ptr
  clk_get_utmip_pad :: clk_ptr
  ioremap :: u32
  vbus_irq :: int
  request_threaded_irq :: int

definition freq_lookup :: "tegra_xtal_freq list \<Rightarrow> u32 \<Rightarrow> freq_ptr \<Rightarrow> freq_ptr" where
  "freq_lookup table rate old =
     (case find (\<lambda>row. word_of_int (freq row) = rate) table of
        Some row \<Rightarrow> Freq_row row
      | None \<Rightarrow> old)"

definition utmip_pad_open :: "open_env \<Rightarrow> tegra_usb_phy \<Rightarrow> (int \<times> tegra_usb_phy) \<times> event list" where
  "utmip_pad_open env phy =
     (case clk_get_utmip_pad env of
        Clk_err e \<Rightarrow> ((e, phy), [Pr_err ''cannot get utmip pad clock''])
      | Clk_ok \<Rightarrow>
          if instance_num phy = 0 then ((0, phy\<lparr>pad_regs := regs phy\<rparr>), [])
          else if ioremap env = 0
            then ((- ENOMEM, phy\<lparr>pad_regs := 0\<rparr>),
                  [Pr_err ''cannot remap usb registers'', Clk_put ''utmip-pad''])
            else ((0, phy\<lparr>pad_regs := ioremap env\<rparr>), []))"

definition err1 :: "event list" where
  "err1 = [Clk_disable ''pll_u'', Clk_put ''pll_u'', Call ''kfree'']"

definition open_irq :: "open_env \<Rightarrow> tegra_usb_phy \<Rightarrow> event list \<Rightarrow> (int + tegra_usb_phy) \<times> event list" where
  "open_irq env phy es =
     (if instance_num phy = 0 \<and> vbus_irq env \<noteq> 0 then
        (if request_threaded_irq env \<noteq> 0
         then (Inl (request_threaded_irq env),
               es @ [Call ''request_threaded_irq'', Pr_err ''Failed to register IRQ''] @ err1)
         else (Inr phy, es @ [Call ''request_threaded_irq'']))
      else (Inr phy, es))"

definition tegra_usb_phy_open ::
  "open_env \<Rightarrow> int \<Rightarrow> u32 \<Rightarrow> config_ptr \<Rightarrow> tegra_usb_phy_mode \<Rightarrow> (int + tegra_usb_phy) \<times> event list" where
  "tegra_usb_phy_open env inst rgs cfg phy_mode =
     (case kmalloc env of
        None \<Rightarrow> (Inl (- ENOMEM), [])
      | Some mem \<Rightarrow>
          (let phy = mem\<lparr>instance_num := inst, regs := rgs, config := cfg, mode := phy_mode,
                         regulator_on := 0\<rparr>
           in if config phy = Config_null \<and> phy_is_ulpi phy
              then (Inl (- EINVAL), [Pr_err ''ulpi phy configuration missing'', Call ''kfree''])
              else
                (let phy = (if config phy = Config_null
                            then phy\<lparr>config := Config_utmip_default inst\<rparr> else phy);
                     hsic = (phy_is_ulpi phy \<and> ulpi_inf_type cfg = Some TEGRA_USB_UHSIC)
                 in case clk_get_pll_u env of
                      Clk_err e \<Rightarrow> (Inl e, [Pr_err ''Cannot get pll_u clock'', Call ''kfree''])
                    | Clk_ok \<Rightarrow>
                        (let phy = phy\<lparr>phy_freq :=
                               freq_lookup (if hsic then tegra_uhsic_freq_table else tegra_freq_table)
                                 (parent_rate env) (phy_freq phy)\<rparr>
                         in if phy_freq phy = Freq_null
                            then (Inl (- EINVAL),
                                  [Clk_enable ''pll_u'', Pr_err ''invalid pll_u parent rate''] @ err1)
                            else if phy_is_ulpi phy then
                              (if ulpi_inf_type cfg = Some TEGRA_USB_LINK_ULPI then
                                 (case clk_get_ulpi env of
                                    Clk_err e \<Rightarrow>
                                      (Inl (- ENXIO),
                                       [Clk_enable ''pll_u'', Pr_err ''cannot get ulpi clock''] @ err1)
                                  | Clk_ok \<Rightarrow>
                                      open_irq env phy
                                        [Clk_enable ''pll_u'', Call ''tegra_gpio_enable'',
                                         Call ''gpio_request'', Call ''gpio_direction_output'',
                                         Call ''otg_ulpi_create''])
                               else open_irq env phy [Clk_enable ''pll_u''])
                            else
                              (case utmip_pad_open env phy of
                                 ((err, phy), es) \<Rightarrow>
                                   if err < 0
                                   then (Inl err, [Clk_enable ''pll_u''] @ es @ err1)
                                   else open_irq env phy ([Clk_enable ''pll_u''] @ es))))))"


text \<open>Environments of \<^verbatim>\<open>tegra_usb_phy_open\<close> used as examples.\<close>

definition mem_poisoned :: tegra_usb_phy where
  "mem_poisoned = \<lparr>instance_num = 0x6B6B6B6B, phy_freq = Freq_wild 0x6B6B6B6B,
     regs = 0x6B6B6B6B, pad_regs = 0x6B6B6B6B, config = Config_null,
     mode = TEGRA_USB_PHY_MODE_DEVICE, regulator_on = 0x6B6B6B6B\<rparr>"

definition env_12mhz :: open_env where
  "env_12mhz = \<lparr>kmalloc = Some (mem_poisoned\<lparr>phy_freq := Freq_null\<rparr>), clk_get_pll_u = Clk_ok,
     parent_rate = 12000000, clk_get_ulpi = Clk_ok, clk_get_utmip_pad = Clk_ok,
     ioremap = 0xFE200000, vbus_irq = 0, request_threaded_irq = 0\<rparr>"

definition env_48mhz_poisoned :: open_env where
  "env_48mhz_poisoned = \<lparr>kmalloc = Some mem_poisoned, clk_get_pll_u = Clk_ok,
     parent_rate = 48000000, clk_get_ulpi = Clk_ok, clk_get_utmip_pad = Clk_ok,
     ioremap = 0xFE200000, vbus_irq = 0, request_threaded_irq = 0\<rparr>"

definition rate_in :: "tegra_xtal_freq list \<Rightarrow> u32 \<Rightarrow> bool" where
  "rate_in table rate = (find (\<lambda>row. word_of_int (freq row) = rate) table \<noteq> None)"

text \<open>
  Claim C6. With no configuration record, once the handle is allocated, a call for
  instance 1 (the ULPI/HSIC instance) fails with \<open>-EINVAL\<close>: no handle is returned, the
  memory is freed and no clock was touched. For every other instance the call is the
  same as the call made with a pointer to \<^verbatim>\<open>utmip_default[instance]\<close>: it goes on to
  the clock and table lookups, and a handle it returns has that pointer as its
  configuration.
\<close>

theorem open_config_missing:
  "(kmalloc env \<noteq> None \<longrightarrow>
      tegra_usb_phy_open env 1 rgs Config_null m =
        (Inl (- EINVAL), [Pr_err ''ulpi phy configuration missing'', Call ''kfree''])) \<and>
   (inst \<noteq> 1 \<longrightarrow>
      tegra_usb_phy_open env inst rgs Config_null m =
        tegra_usb_phy_open env inst rgs (Config_utmip_default inst) m \<and>
      (\<forall>phy. fst (tegra_usb_phy_open env inst rgs Config_null m) = Inr phy \<longrightarrow>
             config phy = Config_utmip_default inst))"
proof (intro conjI impI allI)
  assume "kmalloc env \<noteq> None"
  then show "tegra_usb_phy_open env 1 rgs Config_null m =
        (Inl (- EINVAL), [Pr_err ''ulpi phy configuration missing'', Call ''kfree''])"
    by (auto simp: tegra_usb_phy_open_def phy_is_ulpi_def)
next
  assume i: "inst \<noteq> 1"
  show "tegra_usb_phy_open env inst rgs Config_null m =
        tegra_usb_phy_open env inst rgs (Config_utmip_default inst) m"
  proof (cases "kmalloc env")
    case None
    then show ?thesis by (simp add: tegra_usb_phy_open_def)
  next
    case (Some mem)
    have eq: "mem\<lparr>instance_num := inst, regs := rgs, config := Config_null, mode := m,
                  regulator_on := 0, config := Config_utmip_default inst\<rparr> =
              mem\<lparr>instance_num := inst, regs := rgs, config := Config_utmip_default inst,
                  mode := m, regulator_on := 0\<rparr>"
      by simp
    show ?thesis
      unfolding tegra_usb_phy_open_def Some option.case Let_def
      using i by (simp add: eq phy_is_ulpi_def ulpi_inf_type_def split: clk_ptr.splits)
  qed
next
  fix phy
  assume i: "inst \<noteq> 1"
    and r: "fst (tegra_usb_phy_open env inst rgs Config_null m) = Inr phy"
  from r i show "config phy = Config_utmip_default inst"
    by (auto simp: tegra_usb_phy_open_def phy_is_ulpi_def Let_def open_irq_def utmip_pad_open_def
        split: option.splits clk_ptr.splits if_splits prod.splits)
qed


theorem open_config_missing_witness:
  "kmalloc env_12mhz \<noteq> None \<and>
   tegra_usb_phy_open env_12mhz 1 0xC5004000 Config_null TEGRA_USB_PHY_MODE_HOST =
     (Inl (- 22), [Pr_err ''ulpi phy configuration missing'', Call ''kfree'']) \<and>
   (2 :: int) \<noteq> 1 \<and>
   (\<exists>phy. fst (tegra_usb_phy_open env_12mhz 2 0xC5008000 Config_null TEGRA_USB_PHY_MODE_HOST)
            = Inr phy \<and>
          config phy = Config_utmip_default 2 \<and>
          map_option xcvr_setup (utmip_config_at (config phy)) = Some 9)"
proof -
  have k: "kmalloc env_12mhz \<noteq> None" by (simp add: env_12mhz_def)
  note t = open_config_missing [of env_12mhz "0xC5004000" TEGRA_USB_PHY_MODE_HOST 2]
  from t k have a:
    "tegra_usb_phy_open env_12mhz 1 0xC5004000 Config_null TEGRA_USB_PHY_MODE_HOST =
       (Inl (- 22), [Pr_err ''ulpi phy configuration missing'', Call ''kfree''])"
    by (simp add: EINVAL_def)
  obtain phy where p:
    "fst (tegra_usb_phy_open env_12mhz 2 0xC5008000 Config_null TEGRA_USB_PHY_MODE_HOST) = Inr phy"
    by (simp add: tegra_usb_phy_open_def env_12mhz_def mem_poisoned_def phy_is_ulpi_def
        Let_def freq_lookup_def tegra_freq_table_def utmip_pad_open_def open_irq_def)
  from open_config_missing [of env_12mhz "0xC5008000" TEGRA_USB_PHY_MODE_HOST 2] p
  have c: "config phy = Config_utmip_default 2" by simp
  then have "map_option xcvr_setup (utmip_config_at (config phy)) = Some 9"
    by (simp add: utmip_config_at_def utmip_default_def)
  with k a p c show ?thesis by simp
qed

lemma find_freq_row:
  "row \<in> set tegra_freq_table \<Longrightarrow>
   find (\<lambda>r. (word_of_int (freq r) :: u32) = word_of_int (freq row)) tegra_freq_table = Some row"
  "row \<in> set tegra_uhsic_freq_table \<Longrightarrow>
   find (\<lambda>r. (word_of_int (freq r) :: u32) = word_of_int (freq row)) tegra_uhsic_freq_table
     = Some row"
  by (auto simp: tegra_freq_table_def tegra_uhsic_freq_table_def)

text \<open>
  The lookup as the specification has it, on memory whose \<^verbatim>\<open>freq\<close> field happens to
  be null: a rate of the table selects its row, any other rate leaves the field null.
\<close>

lemma freq_lookup_row:
  "row \<in> set tegra_freq_table \<Longrightarrow>
     freq_lookup tegra_freq_table (word_of_int (freq row)) old = Freq_row row"
  "row \<in> set tegra_uhsic_freq_table \<Longrightarrow>
     freq_lookup tegra_uhsic_freq_table (word_of_int (freq row)) old = Freq_row row"
  by (simp_all add: freq_lookup_def find_freq_row)

lemma freq_lookup_no_row:
  "\<not> rate_in table rate \<Longrightarrow> freq_lookup table rate old = old"
  by (simp add: freq_lookup_def rate_in_def)

lemma open_utmi_supported_rate:
  assumes "kmalloc env = Some mem" "clk_get_pll_u env = Clk_ok" "clk_get_utmip_pad env = Clk_ok"
    "ioremap env \<noteq> 0" "vbus_irq env = 0" "inst \<noteq> 1"
    "row \<in> set tegra_freq_table" "parent_rate env = word_of_int (freq row)"
  shows "\<exists>phy. fst (tegra_usb_phy_open env inst rgs cfg m) = Inr phy \<and> phy_freq phy = Freq_row row"
  using assms
  by (simp add: tegra_usb_phy_open_def phy_is_ulpi_def Let_def freq_lookup_row
      utmip_pad_open_def open_irq_def)

lemma open_hsic_supported_rate:
  assumes "kmalloc env = Some mem" "clk_get_pll_u env = Clk_ok"
    "cfg = Config_ulpi c" "inf_type c = TEGRA_USB_UHSIC"
    "row \<in> set tegra_uhsic_freq_table" "parent_rate env = word_of_int (freq row)"
  shows "\<exists>phy. fst (tegra_usb_phy_open env 1 rgs cfg m) = Inr phy \<and> phy_freq phy = Freq_row row"
  using assms
  by (simp add: tegra_usb_phy_open_def phy_is_ulpi_def Let_def freq_lookup_row
      ulpi_inf_type_def open_irq_def)

lemma open_utmi_unsupported_rate_null:
  assumes "kmalloc env = Some mem" "phy_freq mem = Freq_null" "clk_get_pll_u env = Clk_ok"
    "inst \<noteq> 1" "\<not> rate_in tegra_freq_table (parent_rate env)"
  shows "fst (tegra_usb_phy_open env inst rgs cfg m) = Inl (- EINVAL)"
  using assms
  by (simp add: tegra_usb_phy_open_def phy_is_ulpi_def Let_def freq_lookup_no_row)

text \<open>
  Claim C3, at the input where the code departs from it. \<^verbatim>\<open>kmalloc\<close> does not clear
  the memory it returns and \<^verbatim>\<open>tegra_usb_phy_open\<close> never sets \<^verbatim>\<open>phy->freq\<close> before
  the lookup. With a parent clock of 48 MHz, which is in no table, and memory whose
  \<^verbatim>\<open>freq\<close> field holds a non-null value, the test \<^verbatim>\<open>if (!phy->freq)\<close> does not fire:
  the call returns a handle, and the handle's frequency pointer is the stale value.
\<close>

theorem open_unsupported_rate_stale_pointer:
  "\<not> rate_in tegra_freq_table (parent_rate env_48mhz_poisoned) \<and>
   \<not> rate_in tegra_uhsic_freq_table (parent_rate env_48mhz_poisoned) \<and>
   fst (tegra_usb_phy_open env_48mhz_poisoned 0 0xC5000000 Config_null TEGRA_USB_PHY_MODE_HOST) =
     Inr \<lparr>instance_num = 0, phy_freq = Freq_wild 0x6B6B6B6B, regs = 0xC5000000,
          pad_regs = 0xC5000000, config = Config_utmip_default 0,
          mode = TEGRA_USB_PHY_MODE_HOST, regulator_on = 0\<rparr>"
  by (simp add: rate_in_def tegra_freq_table_def tegra_uhsic_freq_table_def
      env_48mhz_poisoned_def mem_poisoned_def tegra_usb_phy_open_def phy_is_ulpi_def Let_def
      freq_lookup_def utmip_pad_open_def open_irq_def)


subsection \<open>HSIC power-on: \<^verbatim>\<open>uhsic_phy_power_on\<close> and \<^verbatim>\<open>uhsic_phy_power_off\<close>\<close>




text \<open>
  \<open>readl_writel addr f\<close> is the idiom
  \<^verbatim>\<open>val = readl(addr); val = f(val); writel(val, addr);\<close> of the source.
\<close>

definition readl_writel :: "u32 \<Rightarrow> (u32 \<Rightarrow> u32) \<Rightarrow> world \<Rightarrow> world" where
  "readl_writel addr f w = (case readl addr w of (val, w1) \<Rightarrow> writel (f val) addr w1)"







text \<open>
  Counting events of a kind in the trace: the message logged at each retry, the rising
  edge of the modem wake-up GPIO, and the writes to one register. Each pass of the
  power-on sequence writes \<^verbatim>\<open>UHSIC_PADS_CFG0\<close> once and \<^verbatim>\<open>UHSIC_PADS_CFG1\<close> once;
  \<^verbatim>\<open>uhsic_phy_power_off\<close> writes \<^verbatim>\<open>UHSIC_PADS_CFG1\<close> once and \<^verbatim>\<open>UHSIC_PADS_CFG0\<close>
  never.
\<close>

definition ev_count :: "(event \<Rightarrow> bool) \<Rightarrow> world \<Rightarrow> nat" where
  "ev_count P w = length (filter P (trace w))"

definition is_retry_msg :: "event \<Rightarrow> bool" where
  "is_retry_msg e = (e = Pr_err ''register init fail, retry phy power on'')"

definition is_wake_pulse :: "event \<Rightarrow> bool" where
  "is_wake_pulse e = (e = Gpio_set_value GPIO_IPC_SLAVE_WAKEUP 1)"

definition is_write_to :: "u32 \<Rightarrow> event \<Rightarrow> bool" where
  "is_write_to addr e = (case e of Writel a v \<Rightarrow> a = addr | _ \<Rightarrow> False)"









lemma ev_count_prims [simp]:
  "ev_count P (emit e w) = ev_count P w + (if P e then 1 else 0)"
  "ev_count P (writel v a w) = ev_count P w + (if P (Writel a v) then 1 else 0)"
  "ev_count P (gpio_set_value g x w) = ev_count P w + (if P (Gpio_set_value g x) then 1 else 0)"
  "ev_count P (udelay n w) = ev_count P w"
  "ev_count P (mdelay n w) = ev_count P w"
  "ev_count P (snd (readl a w)) = ev_count P w"
  "ev_count P (snd (gpio_get_value g w)) = ev_count P w"
  "ev_count P (readl_writel a f w) =
     ev_count P w + (if P (Writel a (f (inp w (clock w)))) then 1 else 0)"
  by (simp_all add: ev_count_def emit_def writel_def gpio_set_value_def udelay_def mdelay_def
      readl_def gpio_get_value_def readl_writel_def)

lemma inp_prims [simp]:
  "inp (gpio_set_value g x w) = inp w"
  "inp (udelay n w) = inp w"
  "inp (mdelay n w) = inp w"
  "inp (snd (readl a w)) = inp w"
  "inp (snd (gpio_get_value g w)) = inp w"
  "inp (readl_writel a f w) = inp w"
  by (simp_all add: emit_def writel_def gpio_set_value_def udelay_def mdelay_def
      readl_def gpio_get_value_def readl_writel_def)

lemma utmi_wait_register_frame [simp]:
  "inp (snd (utmi_wait_register reg msk result w)) = inp w"
  "trace (snd (utmi_wait_register reg msk result w)) = trace w"
  "ev_count P (snd (utmi_wait_register reg msk result w)) = ev_count P w"
  by (simp_all add: utmi_wait_register_poll ev_count_def split: option.splits)

lemma is_event_simps [simp]:
  "is_retry_msg (Writel a v) = False"
  "is_retry_msg (Mem_write a v) = False"
  "is_retry_msg (Gpio_set_value g x) = False"
  "is_retry_msg (Pr_err ''timeout waiting for phy to stabilize'') = False"
  "is_retry_msg (Pr_err ''register init fail, retry phy power on'') = True"
  "is_wake_pulse (Writel a v) = False"
  "is_wake_pulse (Mem_write a v) = False"
  "is_wake_pulse (Pr_err m) = False"
  "is_wake_pulse (Gpio_set_value g x) = (g = GPIO_IPC_SLAVE_WAKEUP \<and> x = 1)"
  "is_write_to addr (Writel a v) = (a = addr)"
  "is_write_to addr (Mem_write a v) = False"
  "is_write_to addr (Pr_err m) = False"
  "is_write_to addr (Gpio_set_value g x) = False"
  "is_retry_msg (Call m) = False"
  "is_wake_pulse (Call m) = False"
  "is_write_to addr (Call m) = False"
  by (simp_all add: is_retry_msg_def is_wake_pulse_def is_write_to_def)





lemma clock_prims [simp]:
  "clock (emit e w) = clock w"
  "clock (writel v a w) = clock w"
  "clock (gpio_set_value g x w) = clock w"
  "clock (snd (readl a w)) = Suc (clock w)"
  "clock (snd (gpio_get_value g w)) = Suc (clock w)"
  "clock (readl_writel a f w) = Suc (clock w)"
  "fst (readl a w) = inp w (clock w)"
  "fst (gpio_get_value g w) = inp w (clock w)"
  "inp (emit e w) = inp w"
  "inp (writel v a w) = inp w"
  "clock (udelay n w) = clock w"
  "clock (mdelay n w) = clock w"
  by (simp_all add: emit_def writel_def gpio_set_value_def readl_def gpio_get_value_def
      readl_writel_def udelay_def mdelay_def)














subsection \<open>The host controller driver \<^verbatim>\<open>ehci-tegra.c\<close>: constants and state\<close>

text \<open>
  Modelled from the spec: the hub request codes, the port feature selectors and the
  bits of the EHCI registers are declared in \<^verbatim>\<open>linux/usb/hcd.h\<close>,
  \<^verbatim>\<open>linux/usb/ch11.h\<close> and \<^verbatim>\<open>linux/usb/ehci_def.h\<close>, which are not among the
  sources; the specification names them without their values. They are given the values
  of the USB 2.0 and EHCI specifications, which those headers encode.
\<close>

definition ClearPortFeature :: u16 where "ClearPortFeature = 0x2301"

definition GetPortStatus :: u16 where "GetPortStatus = 0xa300"

definition SetPortFeature :: u16 where "SetPortFeature = 0x2303"

definition USB_PORT_FEAT_ENABLE :: u16 where "USB_PORT_FEAT_ENABLE = 1"

definition USB_PORT_FEAT_SUSPEND :: u16 where "USB_PORT_FEAT_SUSPEND = 2"

definition USB_PORT_FEAT_RESET :: u16 where "USB_PORT_FEAT_RESET = 4"

definition USB_PORT_FEAT_POWER :: u16 where "USB_PORT_FEAT_POWER = 8"

definition PORT_CONNECT :: u32 where "PORT_CONNECT = push_bit 0 1"

definition PORT_CSC :: u32 where "PORT_CSC = push_bit 1 1"

definition PORT_PE :: u32 where "PORT_PE = push_bit 2 1"

definition PORT_PEC :: u32 where "PORT_PEC = push_bit 3 1"

definition PORT_OCC :: u32 where "PORT_OCC = push_bit 5 1"

definition PORT_RESUME :: u32 where "PORT_RESUME = push_bit 6 1"

definition PORT_SUSPEND :: u32 where "PORT_SUSPEND = push_bit 7 1"

definition PORT_RESET :: u32 where "PORT_RESET = push_bit 8 1"

definition PORT_POWER :: u32 where "PORT_POWER = push_bit 12 1"

definition PORT_OWNER :: u32 where "PORT_OWNER = push_bit 13 1"

definition PORT_TEST :: "u32 \<Rightarrow> u32" where "PORT_TEST x = push_bit 16 (x AND 0xf)"

definition PORT_TEST_FORCE :: u32 where "PORT_TEST_FORCE = PORT_TEST 5"

definition PORT_WKCONN_E :: u32 where "PORT_WKCONN_E = push_bit 20 1"

definition PORT_WKDISC_E :: u32 where "PORT_WKDISC_E = push_bit 21 1"

definition PORT_WKOC_E :: u32 where "PORT_WKOC_E = push_bit 22 1"

definition PORT_RWC_BITS :: u32 where "PORT_RWC_BITS = PORT_CSC OR PORT_PEC OR PORT_OCC"

definition PORT_WAKE_BITS :: u32 where "PORT_WAKE_BITS = PORT_WKOC_E OR PORT_WKDISC_E OR PORT_WKCONN_E"

definition PORT_USB11 :: "u32 \<Rightarrow> bool" where "PORT_USB11 x = (x AND push_bit 10 3 = push_bit 10 1)"

definition STS_SRI :: u32 where "STS_SRI = push_bit 7 1"

definition STS_PCD :: u32 where "STS_PCD = push_bit 2 1"

definition CMD_RUN :: u32 where "CMD_RUN = push_bit 0 1"

definition CMD_RESET :: u32 where "CMD_RESET = push_bit 1 1"

definition CMD_PSE :: u32 where "CMD_PSE = push_bit 4 1"

definition CMD_ASE :: u32 where "CMD_ASE = push_bit 5 1"

definition CMD_IAAD :: u32 where "CMD_IAAD = push_bit 6 1"

definition CMD_LRESET :: u32 where "CMD_LRESET = push_bit 7 1"

definition FLAG_CF :: u32 where "FLAG_CF = push_bit 0 1"

definition INTR_MASK :: u32 where "INTR_MASK = 0x37"

definition HCS_N_PORTS :: "u32 \<Rightarrow> int" where "HCS_N_PORTS p = uint (p AND 0xf)"

definition HCS_PPC :: "u32 \<Rightarrow> bool" where "HCS_PPC p = (p AND push_bit 4 1 \<noteq> 0)"

text \<open>
  Modelled from the spec: \<^verbatim>\<open>enum tegra_usb_phy_port_speed\<close> is declared in
  \<^verbatim>\<open>mach/usb_phy.h\<close>, which is not among the sources; the specification lists the
  speeds low, full and high. \<^verbatim>\<open>tegra_usb_suspend\<close> stores the two-bit port speed field
  of \<^verbatim>\<open>PORTSC1\<close> in \<^verbatim>\<open>tegra->port_speed\<close> unchanged, so the enumeration has the
  encoding of that field: 0 full, 1 low, 2 high; the field reads 3 when no device is
  attached.
\<close>

definition TEGRA_USB_PHY_PORT_SPEED_FULL :: u32 where "TEGRA_USB_PHY_PORT_SPEED_FULL = 0"

definition TEGRA_USB_PHY_PORT_SPEED_LOW :: u32 where "TEGRA_USB_PHY_PORT_SPEED_LOW = 1"

definition TEGRA_USB_PHY_PORT_SPEED_HIGH :: u32 where "TEGRA_USB_PHY_PORT_SPEED_HIGH = 2"

text \<open>
  The state of one controller: the fields of \<^verbatim>\<open>struct tegra_ehci_hcd\<close>, the fields of
  \<^verbatim>\<open>struct ehci_hcd\<close> and \<^verbatim>\<open>struct usb_hcd\<close> that the driver reads or writes, and
  the file-scope variables \<^verbatim>\<open>shutdown\<close>, \<^verbatim>\<open>work_count\<close> and
  \<^verbatim>\<open>ehci_power_up_by_sysfs\<close>. An entry of \<^verbatim>\<open>ehci->reset_done\<close> is clear or holds
  \<^verbatim>\<open>jiffies + msecs_to_jiffies(n)\<close>. \<open>ehci_regs_async_present\<close> stands for
  \<^verbatim>\<open>ehci && ehci->regs && ehci->async\<close>.
\<close>

datatype reset_timer = Timer_clear | Jiffies_plus_msecs nat

record tegra_ehci_hcd =
  phy :: tegra_usb_phy
  hub_suspend_req :: int
  host_resumed :: int
  bus_is_power_down :: int
  port_resuming :: int
  device_ready_for_reset :: bool
  port_speed :: u32
  hcs_params :: u32
  has_tt :: bool
  reset_done :: "int \<Rightarrow> reset_timer"
  suspended_ports :: u32
  command :: u32
  periodic_dma :: u32
  async_qh_dma :: u32
  controller_resets_phy :: int
  ehci_regs_async_present :: bool
  hc_state_running :: bool
  hcd_flag_hw_accessible :: bool
  shutdown :: int
  ehci_power_up_by_sysfs :: bool
  work_count :: int

definition is_hsic :: "tegra_ehci_hcd \<Rightarrow> bool" where
  "is_hsic tegra =
     (instance_num (phy tegra) = 1 \<and> ulpi_inf_type (config (phy tegra)) = Some TEGRA_USB_UHSIC)"

text \<open>
  Modelled from the spec: \<^verbatim>\<open>handshake\<close>, \<^verbatim>\<open>ehci_hub_control\<close>, \<^verbatim>\<open>ehci_reset\<close>,
  \<^verbatim>\<open>ehci_halt\<close> and \<^verbatim>\<open>tdi_reset\<close> are functions of \<^verbatim>\<open>ehci-hcd.c\<close>, which is not
  among the sources. The specification has \<^verbatim>\<open>handshake\<close> as a bounded poll of a
  register that ends in success or in a timeout: the model takes its result (0 for
  success) from the environment. The other functions are recorded in the trace as calls;
  a result that the driver uses is a value of the environment. A call of a PHY verb is
  recorded with the value of \<^verbatim>\<open>device_ready_for_reset\<close> at the call.
\<close>

definition ehci_readl :: "ehci_reg \<Rightarrow> world \<Rightarrow> u32 \<times> world" where
  "ehci_readl reg w = (inp w (clock w), w\<lparr>clock := Suc (clock w)\<rparr>)"

definition ehci_writel :: "u32 \<Rightarrow> ehci_reg \<Rightarrow> world \<Rightarrow> world" where
  "ehci_writel val reg w = emit (Ehci_writel reg val) w"

definition handshake :: "ehci_reg \<Rightarrow> u32 \<Rightarrow> u32 \<Rightarrow> nat \<Rightarrow> world \<Rightarrow> u32 \<times> world" where
  "handshake reg msk done_val usec w = (inp w (clock w), w\<lparr>clock := Suc (clock w)\<rparr>)"

definition msleep :: "nat \<Rightarrow> world \<Rightarrow> world" where
  "msleep n w = udelay (1000 * n) w"

definition kernel_call :: "string \<Rightarrow> world \<Rightarrow> world" where
  "kernel_call name w = emit (Call name) w"

definition phy_call :: "phy_op \<Rightarrow> tegra_ehci_hcd \<Rightarrow> world \<Rightarrow> u32 \<times> world" where
  "phy_call op tegra w =
     (inp w (clock w),
      emit (Phy op (device_ready_for_reset tegra) (inp w (clock w))) (w\<lparr>clock := Suc (clock w)\<rparr>))"

definition phy_call_void :: "phy_op \<Rightarrow> tegra_ehci_hcd \<Rightarrow> world \<Rightarrow> world" where
  "phy_call_void op tegra w = emit (Phy op (device_ready_for_reset tegra) 0) w"

definition set_bit :: "int \<Rightarrow> u32 \<Rightarrow> u32" where
  "set_bit nr addr = (if 0 \<le> nr \<and> nr < 32 then addr OR push_bit (nat nr) 1 else addr)"

subsection \<open>\<^verbatim>\<open>tegra_ehci_hub_control\<close>\<close>

text \<open>
  The presence poll of the HSIC port reset:
  \<^verbatim>\<open>while (retry_connect) { if (tegra_usb_phy_is_device_connected(phy)) { ready = true; break; } msleep(50); retry_connect--; }\<close>
  with \<^verbatim>\<open>unsigned retry_connect = 20\<close>, and the block around it that ends in
  \<^verbatim>\<open>tegra_usb_phy_bus_reset\<close>. The block has two parts: the presence phase under
  \<^verbatim>\<open>if (!tegra->device_ready_for_reset)\<close>, which is \<open>hsic_presence_poll\<close>, and the
  reset under \<^verbatim>\<open>if (tegra->device_ready_for_reset)\<close>, which is
  \<open>hsic_reset_if_ready\<close>. The source drops \<^verbatim>\<open>ehci->lock\<close> around each
  \<^verbatim>\<open>msleep(50)\<close>; the functions below are the code of one request with nothing else
  of the driver run in between. What another path does during a sleep is placed
  between the two parts where a statement needs it.
\<close>

fun retry_connect_loop :: "nat \<Rightarrow> tegra_ehci_hcd \<times> world \<Rightarrow> tegra_ehci_hcd \<times> world" where
  "retry_connect_loop 0 s = s"
| "retry_connect_loop (Suc retry_connect) (tegra, w) =
     (case phy_call Phy_is_device_connected tegra w of
        (connected, w) \<Rightarrow>
          if connected \<noteq> 0 then (tegra\<lparr>device_ready_for_reset := True\<rparr>, w)
          else retry_connect_loop retry_connect (tegra, msleep 50 w))"

definition hsic_presence_poll :: "tegra_ehci_hcd \<times> world \<Rightarrow> tegra_ehci_hcd \<times> world" where
  "hsic_presence_poll s =
     (if \<not> device_ready_for_reset (fst s)
      then retry_connect_loop 20 (fst s, snd (phy_call Phy_bus_idle (fst s) (snd s)))
      else s)"

definition hsic_reset_if_ready ::
  "tegra_ehci_hcd \<times> world \<Rightarrow> int \<times> tegra_ehci_hcd \<times> world" where
  "hsic_reset_if_ready s1 =
     (if device_ready_for_reset (fst s1)
      then (case phy_call Phy_bus_reset (fst s1) (snd s1) of
              (retval, w) \<Rightarrow> (sint retval, (fst s1)\<lparr>device_ready_for_reset := False\<rparr>, w))
      else (0, s1))"

definition hsic_port_reset :: "tegra_ehci_hcd \<times> world \<Rightarrow> int \<times> tegra_ehci_hcd \<times> world" where
  "hsic_port_reset s = hsic_reset_if_ready (hsic_presence_poll s)"

text \<open>
  The branches of \<^verbatim>\<open>tegra_ehci_hub_control\<close> for \<^verbatim>\<open>SetPortFeature\<close> and
  \<^verbatim>\<open>ClearPortFeature\<close> of \<^verbatim>\<open>USB_PORT_FEAT_SUSPEND\<close>, the block that handles reset and
  power of the HSIC port, and the function itself. Each branch returns \<^verbatim>\<open>retval\<close>,
  the controller state and the environment. The \<^verbatim>\<open>ehci_dbg\<close> and \<^verbatim>\<open>ehci_vdbg\<close>
  messages are compiled out; the spin lock is not modelled, the layer being sequential.
\<close>

definition hub_port_suspend :: "u16 \<Rightarrow> tegra_ehci_hcd \<times> world \<Rightarrow> int \<times> tegra_ehci_hcd \<times> world" where
  "hub_port_suspend wIndex s =
     (let tegra = fst s;
          status_reg = Port_status (uint (wIndex AND 0xff) - 1)
      in case ehci_readl status_reg (snd s) of
           (temp, w) \<Rightarrow>
             if temp AND PORT_PE = 0 \<or> temp AND PORT_RESET \<noteq> 0 then (- EPIPE, tegra, w)
             else
               (let temp = (temp AND NOT PORT_WKCONN_E) OR (PORT_WKDISC_E OR PORT_WKOC_E);
                    w = ehci_writel (temp OR PORT_SUSPEND) status_reg w
                in case handshake status_reg PORT_SUSPEND PORT_SUSPEND 5000 w of
                     (failed, w) \<Rightarrow>
                       (0,
                        tegra\<lparr>suspended_ports :=
                                 set_bit (uint (wIndex AND 0xff) - 1) (suspended_ports tegra),
                               hub_suspend_req := 1\<rparr>,
                        if failed \<noteq> 0 then emit (Pr_err ''timeout waiting for SUSPEND'') w
                        else w)))"

definition handshake_logged :: "ehci_reg \<Rightarrow> u32 \<Rightarrow> u32 \<Rightarrow> nat \<Rightarrow> string \<Rightarrow> world \<Rightarrow> world" where
  "handshake_logged reg msk done_val usec msg w =
     (case handshake reg msk done_val usec w of
        (failed, w) \<Rightarrow> if failed \<noteq> 0 then emit (Pr_err msg) w else w)"

definition hub_port_resume :: "u16 \<Rightarrow> tegra_ehci_hcd \<times> world \<Rightarrow> int \<times> tegra_ehci_hcd \<times> world" where
  "hub_port_resume wIndex s =
     (let tegra = fst s;
          status_reg = Port_status (uint (wIndex AND 0xff) - 1)
      in case ehci_readl status_reg (snd s) of
           (temp, w) \<Rightarrow>
             if temp AND PORT_RESET \<noteq> 0 \<or> temp AND PORT_PE = 0 then (- EPIPE, tegra, w)
             else if temp AND PORT_SUSPEND = 0 then (0, tegra, w)
             else
               (let w = phy_call_void Phy_preresume tegra w;
                    tegra = tegra\<lparr>reset_done :=
                               (reset_done tegra)(uint wIndex - 1 := Jiffies_plus_msecs 25)\<rparr>;
                    w = (case ehci_readl Status w of
                           (usbsts_reg, w) \<Rightarrow> ehci_writel usbsts_reg Status w);
                    w = snd (ehci_readl Status w);
                    w = udelay 20 w;
                    w = handshake_logged Status STS_SRI STS_SRI 2000 ''timeout set for STS_SRI'' w;
                    w = (case ehci_readl Status w of
                           (usbsts_reg, w) \<Rightarrow> ehci_writel usbsts_reg Status w);
                    w = handshake_logged Status STS_SRI 0 2000 ''timeout clear STS_SRI'' w;
                    w = handshake_logged Status STS_SRI STS_SRI 2000 ''timeout set STS_SRI'' w;
                    w = udelay 20 w;
                    temp = temp AND NOT (PORT_RWC_BITS OR PORT_WAKE_BITS);
                    w = ehci_writel (temp OR PORT_RESUME) status_reg w;
                    w = msleep 20 w;
                    w = handshake_logged status_reg PORT_RESUME 0 2100 ''timeout waiting for RESUME'' w;
                    w = handshake_logged status_reg PORT_SUSPEND 0 2000
                          ''timeout waiting for SUSPEND'' w;
                    tegra = tegra\<lparr>reset_done := (reset_done tegra)(uint wIndex - 1 := Timer_clear)\<rparr>
                in (0, tegra\<lparr>port_resuming := 1\<rparr>, w)))"

definition hsic_port_feature ::
  "u16 \<Rightarrow> u16 \<Rightarrow> tegra_ehci_hcd \<times> world \<Rightarrow> int \<times> tegra_ehci_hcd \<times> world" where
  "hsic_port_feature wValue wIndex0 s =
     (let tegra = fst s;
          ports = HCS_N_PORTS (hcs_params tegra);
          status_reg = Port_status (uint (wIndex0 AND 0xff) - 1);
          wIndex = uint (wIndex0 AND 0xff)
      in if wIndex = 0 \<or> wIndex > ports then (- EPIPE, s)
         else
           (let wIndex = wIndex - 1
            in case ehci_readl status_reg (snd s) of
                 (temp, w) \<Rightarrow>
                   if temp AND PORT_OWNER \<noteq> 0 then (0, tegra, w)
                   else
                     (let temp = temp AND NOT PORT_RWC_BITS
                      in if wValue = USB_PORT_FEAT_RESET then
                           (if temp AND PORT_RESUME \<noteq> 0 then (- EPIPE, tegra, w)
                            else if temp AND (PORT_PE OR PORT_CONNECT) = PORT_CONNECT
                                    \<and> \<not> has_tt tegra \<and> PORT_USB11 temp
                            then (0, tegra, ehci_writel (temp OR PORT_OWNER) status_reg w)
                            else
                              (let temp = temp AND NOT PORT_PE;
                                   tegra = tegra\<lparr>reset_done :=
                                     (reset_done tegra)(wIndex := Jiffies_plus_msecs 50)\<rparr>;
                                   w = ehci_writel temp status_reg w
                               in if wIndex = 0 then hsic_port_reset (tegra, w)
                                  else (0, tegra, w)))
                         else
                           (let w = (if HCS_PPC (hcs_params tegra)
                                     then ehci_writel (temp OR PORT_POWER) status_reg w else w)
                            in if wIndex = 0 then
                                 (if shutdown tegra = 1 then (0, tegra, w)
                                  else (0, tegra\<lparr>device_ready_for_reset := True\<rparr>,
                                        snd (phy_call Phy_bus_connect tegra w)))
                               else (0, tegra, w)))))"

definition kernel_call_ret :: "string \<Rightarrow> world \<Rightarrow> u32 \<times> world" where
  "kernel_call_ret name w = (inp w (clock w), emit (Call name) (w\<lparr>clock := Suc (clock w)\<rparr>))"

definition hub_control_tail ::
  "u16 \<Rightarrow> u16 \<Rightarrow> u16 \<Rightarrow> tegra_ehci_hcd \<times> world \<Rightarrow> int \<times> tegra_ehci_hcd \<times> world" where
  "hub_control_tail typeReq wValue wIndex s =
     (if is_hsic (fst s) \<and> typeReq = SetPortFeature
         \<and> (wValue = USB_PORT_FEAT_RESET \<or> wValue = USB_PORT_FEAT_POWER)
      then hsic_port_feature wValue wIndex s
      else (case kernel_call_ret ''ehci_hub_control'' (snd s) of
              (ret, w) \<Rightarrow> (sint ret, fst s, w)))"

definition tegra_ehci_hub_control ::
  "u16 \<Rightarrow> u16 \<Rightarrow> u16 \<Rightarrow> tegra_ehci_hcd \<times> world \<Rightarrow> int \<times> tegra_ehci_hcd \<times> world" where
  "tegra_ehci_hub_control typeReq wValue wIndex s =
     (let tegra = fst s;
          status_reg = Port_status (uint (wIndex AND 0xff) - 1)
      in if typeReq = ClearPortFeature \<and> wValue = USB_PORT_FEAT_ENABLE then
           (case ehci_readl status_reg (snd s) of
              (v, w) \<Rightarrow>
                (0, tegra, ehci_writel ((v AND NOT PORT_RWC_BITS) AND NOT PORT_PE) status_reg w))
         else if typeReq = GetPortStatus then
           (case ehci_readl status_reg (snd s) of
              (temp, w) \<Rightarrow>
                hub_control_tail typeReq wValue wIndex
                  (if port_resuming tegra \<noteq> 0 \<and> temp AND PORT_SUSPEND = 0
                   then (tegra\<lparr>port_resuming := 0\<rparr>, phy_call_void Phy_postresume tegra w)
                   else (tegra, w)))
         else if typeReq = SetPortFeature \<and> wValue = USB_PORT_FEAT_SUSPEND then
           hub_port_suspend wIndex s
         else if typeReq = ClearPortFeature \<and> wValue = USB_PORT_FEAT_SUSPEND then
           hub_port_resume wIndex s
         else hub_control_tail typeReq wValue wIndex s)"

subsection \<open>Power, restart, suspend, resume and the reconnection worker\<close>

definition clk_enable :: "string \<Rightarrow> world \<Rightarrow> world" where
  "clk_enable name w = emit (Clk_enable name) w"

definition clk_disable :: "string \<Rightarrow> world \<Rightarrow> world" where
  "clk_disable name w = emit (Clk_disable name) w"

definition tegra_ehci_power_up :: "tegra_ehci_hcd \<times> world \<Rightarrow> tegra_ehci_hcd \<times> world" where
  "tegra_ehci_power_up s =
     (let tegra = fst s;
          w = clk_enable ''clk'' (clk_enable ''sclk_clk'' (clk_enable ''emc_clk'' (snd s)));
          by_sysfs = (ehci_power_up_by_sysfs tegra \<and> instance_num (phy tegra) = 1);
          tegra = (if by_sysfs then tegra\<lparr>ehci_power_up_by_sysfs := False\<rparr> else tegra);
          w = (if by_sysfs then mdelay 50 w else w);
          w = snd (phy_call Phy_power_on tegra w)
      in (tegra\<lparr>host_resumed := 1, bus_is_power_down := 0\<rparr>, w))"


definition tegra_ehci_restart :: "tegra_ehci_hcd \<times> world \<Rightarrow> tegra_ehci_hcd \<times> world" where
  "tegra_ehci_restart s =
     (let tegra = fst s;
          w = kernel_call ''ehci_reset'' (snd s);
          tegra = tegra\<lparr>controller_resets_phy := 1\<rparr>;
          w = ehci_writel (periodic_dma tegra) Frame_list w;
          w = ehci_writel (async_qh_dma tegra) Async_next w;
          tegra = tegra\<lparr>command :=
                    (command tegra AND NOT (CMD_LRESET OR CMD_IAAD OR CMD_PSE OR CMD_ASE OR CMD_RESET))
                    OR CMD_RUN\<rparr>;
          w = ehci_writel (command tegra) Command w;
          w = (if HCS_PPC (hcs_params tegra)
               then (case ehci_readl (Port_status 0) w of
                       (temp, w) \<Rightarrow> ehci_writel (temp OR PORT_POWER) (Port_status 0) w)
               else w);
          tegra = tegra\<lparr>hc_state_running := True\<rparr>;
          w = ehci_writel FLAG_CF Configured_flag w;
          w = snd (ehci_readl Command w);
          w = ehci_writel INTR_MASK Intr_enable w
      in (tegra, w))"


definition usb_resume_restart :: "tegra_ehci_hcd \<times> world \<Rightarrow> int \<times> tegra_ehci_hcd \<times> world" where
  "usb_resume_restart s =
     (let tegra = fst s;
          hsic = is_hsic tegra;
          w = (if \<not> hsic \<or> port_speed tegra \<le> TEGRA_USB_PHY_PORT_SPEED_HIGH
               then phy_call_void Phy_restore_end tegra (snd s) else snd s)
      in if hsic then
           (if \<not> ehci_regs_async_present tegra then (0, tegra, w)
            else
              (case ehci_readl (Port_status 0) w of
                 (val, w) \<Rightarrow>
                   (let s1 = (if \<not> (val AND PORT_POWER \<noteq> 0 \<and> val AND PORT_PE \<noteq> 0)
                              then (case tegra_ehci_restart (tegra, w) of
                                      (tegra, w) \<Rightarrow> (tegra, kernel_call ''usb_set_device_state'' w))
                              else (tegra, w));
                        tegra = fst s1;
                        w = snd (phy_call Phy_bus_idle tegra (snd s1))
                    in case phy_call Phy_is_device_connected tegra w of
                         (connected, w) \<Rightarrow>
                           if connected = 0
                           then (0, tegra, kernel_call ''schedule_delayed_work'' w)
                           else (0, tegra\<lparr>device_ready_for_reset := True\<rparr>, w))))
         else (0, tegra_ehci_restart (tegra, w)))"

definition tegra_usb_resume :: "tegra_ehci_hcd \<times> world \<Rightarrow> int \<times> tegra_ehci_hcd \<times> world" where
  "tegra_usb_resume s0 =
     (let hsic = is_hsic (fst s0);
          s = tegra_ehci_power_up ((fst s0)\<lparr>hcd_flag_hw_accessible := True\<rparr>, snd s0);
          tegra = fst s
      in if hsic then usb_resume_restart s
         else if port_speed tegra > TEGRA_USB_PHY_PORT_SPEED_HIGH then
           usb_resume_restart (tegra, if \<not> hsic then msleep 10 (snd s) else snd s)
         else
           (let w = phy_call_void (Phy_restore_start (port_speed tegra)) tegra (snd s);
                w = kernel_call ''tdi_reset'' w;
                w = (case ehci_readl (Port_status 0) w of
                       (val, w) \<Rightarrow> ehci_writel (val OR PORT_POWER) (Port_status 0) w);
                w = udelay 10 w
            in case ehci_readl Async_next w of
                 (async_next, w) \<Rightarrow>
                   (let w = (if async_next = 0 then
                               (case ehci_readl (Port_status 0) w of
                                  (val, w) \<Rightarrow>
                                    (let val = val AND NOT (PORT_TEST (NOT 0));
                                         val = (if port_speed tegra = TEGRA_USB_PHY_PORT_SPEED_HIGH
                                                then val OR PORT_TEST_FORCE
                                                else if port_speed tegra = TEGRA_USB_PHY_PORT_SPEED_FULL
                                                then val OR PORT_TEST 6
                                                else if port_speed tegra = TEGRA_USB_PHY_PORT_SPEED_LOW
                                                then val OR PORT_TEST 7
                                                else val);
                                         w = ehci_writel val (Port_status 0) w;
                                         w = udelay 10 w
                                     in case ehci_readl (Port_status 0) w of
                                          (val, w) \<Rightarrow>
                                            udelay 10
                                              (ehci_writel (val AND NOT (PORT_TEST (NOT 0)))
                                                 (Port_status 0) w)))
                             else w)
                    in case handshake (Port_status 0) PORT_CONNECT PORT_CONNECT 2000 w of
                         (failed, w) \<Rightarrow>
                           if failed \<noteq> 0
                           then usb_resume_restart
                                  (tegra, emit (Pr_err ''timeout waiting for PORT_CONNECT'') w)
                           else
                             (case handshake (Port_status 0) PORT_PE PORT_PE 2000 w of
                                (failed, w) \<Rightarrow>
                                  if failed \<noteq> 0
                                  then usb_resume_restart
                                         (tegra, emit (Pr_err ''timeout waiting for USB_PORTSC1_PE'') w)
                                  else
                                    (let w = (case ehci_readl Status w of
                                                (val, w) \<Rightarrow> ehci_writel (val OR STS_PCD) Status w)
                                     in case ehci_readl (Port_status 0) w of
                                          (val, w) \<Rightarrow>
                                            if val AND PORT_POWER \<noteq> 0 \<and> val AND PORT_PE \<noteq> 0 then
                                              (let w = ehci_writel (val OR PORT_SUSPEND) (Port_status 0) w
                                               in case handshake (Port_status 0) PORT_SUSPEND
                                                         PORT_SUSPEND 1000 w of
                                                    (failed, w) \<Rightarrow>
                                                      if failed \<noteq> 0
                                                      then usb_resume_restart
                                                             (tegra,
                                                              emit (Pr_err
                                                                ''timeout waiting for PORT_SUSPEND'') w)
                                                      else (0, tegra,
                                                            phy_call_void Phy_restore_end tegra w))
                                            else (0, tegra, phy_call_void Phy_restore_end tegra w))))))"

definition tegra_hsic_connection_work :: "tegra_ehci_hcd \<times> world \<Rightarrow> tegra_ehci_hcd \<times> world" where
  "tegra_hsic_connection_work s =
     (let tegra = fst s
      in case phy_call Phy_is_device_connected tegra (snd s) of
           (connected, w) \<Rightarrow>
             if connected \<noteq> 0
             then (tegra\<lparr>device_ready_for_reset := True, work_count := 0\<rparr>,
                   kernel_call ''cancel_delayed_work'' w)
             else if work_count tegra > 40 then (tegra\<lparr>work_count := 0\<rparr>, w)
             else (tegra\<lparr>work_count := work_count tegra + 1\<rparr>,
                   kernel_call ''schedule_delayed_work'' w))"

subsection \<open>Observations on the trace of the host controller driver\<close>

text \<open>
  The write that starts resume signalling on a port, the calls of PHY verbs of a given
  kind, the presence polls that returned true, and the condition on the port status
  under which a reset request on the HSIC port reaches the reset itself: the port is not
  owned by a companion controller, is not resuming, and is not handed to a companion as
  a low-speed device.
\<close>

definition is_resume_signal :: "event \<Rightarrow> bool" where
  "is_resume_signal e =
     (case e of Ehci_writel reg v \<Rightarrow>
        (case reg of Port_status i \<Rightarrow> v AND PORT_RESUME \<noteq> 0 | _ \<Rightarrow> False)
      | _ \<Rightarrow> False)"

definition is_phy_call :: "(phy_op \<Rightarrow> bool) \<Rightarrow> event \<Rightarrow> bool" where
  "is_phy_call P e = (case e of Phy op ready ret \<Rightarrow> P op | _ \<Rightarrow> False)"

definition is_restore_start :: "phy_op \<Rightarrow> bool" where
  "is_restore_start op = (case op of Phy_restore_start speed \<Rightarrow> True | _ \<Rightarrow> False)"

definition is_restore_start_at :: "u32 \<Rightarrow> phy_op \<Rightarrow> bool" where
  "is_restore_start_at speed op = (op = Phy_restore_start speed)"

definition is_restore_end :: "phy_op \<Rightarrow> bool" where
  "is_restore_end op = (op = Phy_restore_end)"

definition is_preresume :: "phy_op \<Rightarrow> bool" where
  "is_preresume op = (op = Phy_preresume)"

definition is_bus_reset :: "phy_op \<Rightarrow> bool" where
  "is_bus_reset op = (op = Phy_bus_reset)"

definition is_connected_poll :: "phy_op \<Rightarrow> bool" where
  "is_connected_poll op = (op = Phy_is_device_connected)"

definition is_connected_true :: "event \<Rightarrow> bool" where
  "is_connected_true e =
     (case e of Phy op ready ret \<Rightarrow> op = Phy_is_device_connected \<and> ret \<noteq> 0 | _ \<Rightarrow> False)"

definition reset_goes_ahead :: "tegra_ehci_hcd \<Rightarrow> u32 \<Rightarrow> bool" where
  "reset_goes_ahead tegra status =
     (status AND PORT_OWNER = 0 \<and>
      (status AND NOT PORT_RWC_BITS) AND PORT_RESUME = 0 \<and>
      \<not> ((status AND NOT PORT_RWC_BITS) AND (PORT_PE OR PORT_CONNECT) = PORT_CONNECT \<and>
         \<not> has_tt tegra \<and> PORT_USB11 (status AND NOT PORT_RWC_BITS)))"

text \<open>Controllers and environments used as examples.\<close>

definition tegra_utmi_idle :: tegra_ehci_hcd where
  "tegra_utmi_idle = \<lparr>phy = utmi_phy0, hub_suspend_req = 0, host_resumed = 1,
     bus_is_power_down = 0, port_resuming = 0, device_ready_for_reset = False, port_speed = 0,
     hcs_params = 1, has_tt = True, reset_done = (\<lambda>i. Timer_clear), suspended_ports = 0,
     command = 0, periodic_dma = 0, async_qh_dma = 0, controller_resets_phy = 1,
     ehci_regs_async_present = True, hc_state_running = True, hcd_flag_hw_accessible = True,
     shutdown = 0, ehci_power_up_by_sysfs = False, work_count = 0\<rparr>"

definition tegra_hsic_idle :: tegra_ehci_hcd where
  "tegra_hsic_idle = tegra_utmi_idle\<lparr>phy := hsic_phy1\<rparr>"

definition w_port_suspended :: world where
  "w_port_suspended = \<lparr>inp = (\<lambda>n. 0x84), clock = 0, usecs = 0, trace = []\<rparr>"

definition c7_first_resume :: "int \<times> tegra_ehci_hcd \<times> world" where
  "c7_first_resume =
     tegra_ehci_hub_control ClearPortFeature USB_PORT_FEAT_SUSPEND 1
       (tegra_utmi_idle, w_port_suspended)"

definition c7_second_resume :: "int \<times> tegra_ehci_hcd \<times> world" where
  "c7_second_resume =
     tegra_ehci_hub_control ClearPortFeature USB_PORT_FEAT_SUSPEND 1 (snd c7_first_resume)"

definition tegra_utmi_high_speed :: tegra_ehci_hcd where
  "tegra_utmi_high_speed = tegra_utmi_idle\<lparr>port_speed := TEGRA_USB_PHY_PORT_SPEED_HIGH\<rparr>"

definition tegra_utmi_no_device :: tegra_ehci_hcd where
  "tegra_utmi_no_device = tegra_utmi_idle\<lparr>port_speed := 3\<rparr>"

definition c2_reset_after_timeout :: "int \<times> tegra_ehci_hcd \<times> world" where
  "c2_reset_after_timeout =
     tegra_ehci_hub_control SetPortFeature USB_PORT_FEAT_RESET 1 (tegra_hsic_idle, w_silent)"

definition c2_power_then_reset :: "int \<times> tegra_ehci_hcd \<times> world" where
  "c2_power_then_reset =
     tegra_ehci_hub_control SetPortFeature USB_PORT_FEAT_RESET 1
       (snd (tegra_ehci_hub_control SetPortFeature USB_PORT_FEAT_POWER 1
               (tegra_hsic_idle, w_silent)))"

text \<open>
  The state in which a reset request on port 1 that goes ahead enters the block of the
  HSIC port: the reset timer is set and the port status has been written back with
  \<^verbatim>\<open>PORT_PE\<close> cleared. And a link whose device answers only at read 22, which is after
  the status read, the call of \<^verbatim>\<open>tegra_usb_phy_bus_idle\<close> and the 20 polls of a reset
  request that starts at read 0.
\<close>

definition hsic_reset_entry :: "tegra_ehci_hcd \<Rightarrow> world \<Rightarrow> tegra_ehci_hcd \<times> world" where
  "hsic_reset_entry tegra w =
     (tegra\<lparr>reset_done := (reset_done tegra)(0 := Jiffies_plus_msecs 50)\<rparr>,
      ehci_writel ((inp w (clock w) AND NOT PORT_RWC_BITS) AND NOT PORT_PE) (Port_status 0)
        (snd (ehci_readl (Port_status 0) w)))"

definition w_device_late :: world where
  "w_device_late = \<lparr>inp = (\<lambda>n. if n = 22 then 1 else 0), clock = 0, usecs = 0, trace = []\<rparr>"

lemma ev_count_ehci_prims [simp]:
  "ev_count P (ehci_writel v reg w) = ev_count P w + (if P (Ehci_writel reg v) then 1 else 0)"
  "ev_count P (snd (ehci_readl reg w)) = ev_count P w"
  "ev_count P (snd (handshake reg msk d usec w)) = ev_count P w"
  "ev_count P (msleep n w) = ev_count P w"
  "ev_count P (kernel_call name w) = ev_count P w + (if P (Call name) then 1 else 0)"
  "ev_count P (snd (kernel_call_ret name w)) = ev_count P w + (if P (Call name) then 1 else 0)"
  "ev_count P (clk_enable name w) = ev_count P w + (if P (Clk_enable name) then 1 else 0)"
  "ev_count P (clk_disable name w) = ev_count P w + (if P (Clk_disable name) then 1 else 0)"
  "ev_count P (phy_call_void op tegra w) =
     ev_count P w + (if P (Phy op (device_ready_for_reset tegra) 0) then 1 else 0)"
  "ev_count P (snd (phy_call op tegra w)) =
     ev_count P w + (if P (Phy op (device_ready_for_reset tegra) (inp w (clock w))) then 1 else 0)"
  "ev_count P (w\<lparr>clock := k\<rparr>) = ev_count P w"
  by (simp_all add: ev_count_def emit_def ehci_writel_def ehci_readl_def handshake_def msleep_def
      udelay_def kernel_call_def kernel_call_ret_def clk_enable_def clk_disable_def
      phy_call_void_def phy_call_def)

lemma world_ehci_prims [simp]:
  "inp (ehci_writel v reg w) = inp w" "clock (ehci_writel v reg w) = clock w"
  "inp (snd (ehci_readl reg w)) = inp w" "clock (snd (ehci_readl reg w)) = Suc (clock w)"
  "fst (ehci_readl reg w) = inp w (clock w)"
  "inp (snd (handshake reg msk d usec w)) = inp w"
  "clock (snd (handshake reg msk d usec w)) = Suc (clock w)"
  "fst (handshake reg msk d usec w) = inp w (clock w)"
  "inp (msleep n w) = inp w" "clock (msleep n w) = clock w"
  "inp (kernel_call name w) = inp w" "clock (kernel_call name w) = clock w"
  "inp (snd (kernel_call_ret name w)) = inp w"
  "clock (snd (kernel_call_ret name w)) = Suc (clock w)"
  "fst (kernel_call_ret name w) = inp w (clock w)"
  "inp (clk_enable name w) = inp w" "clock (clk_enable name w) = clock w"
  "inp (clk_disable name w) = inp w" "clock (clk_disable name w) = clock w"
  "inp (phy_call_void op tegra w) = inp w" "clock (phy_call_void op tegra w) = clock w"
  "inp (snd (phy_call op tegra w)) = inp w" "clock (snd (phy_call op tegra w)) = Suc (clock w)"
  "fst (phy_call op tegra w) = inp w (clock w)"
  "clock (udelay n w) = clock w" "clock (mdelay n w) = clock w"
  by (simp_all add: emit_def ehci_writel_def ehci_readl_def handshake_def msleep_def
      udelay_def mdelay_def kernel_call_def kernel_call_ret_def clk_enable_def clk_disable_def
      phy_call_void_def phy_call_def)

lemma is_resume_signal_simps [simp]:
  "is_resume_signal (Ehci_writel (Port_status i) v) = (v AND PORT_RESUME \<noteq> 0)"
  "is_resume_signal (Ehci_writel Status v) = False"
  "is_resume_signal (Pr_err m) = False"
  "is_resume_signal (Call m) = False"
  "is_resume_signal (Phy op ready ret) = False"
  by (simp_all add: is_resume_signal_def)

lemma is_phy_call_simps [simp]:
  "is_phy_call P (Phy op ready ret) = P op"
  "is_phy_call P (Ehci_writel reg v) = False"
  "is_phy_call P (Pr_err m) = False"
  "is_phy_call P (Call m) = False"
  "is_phy_call P (Clk_enable m) = False"
  "is_phy_call P (Clk_disable m) = False"
  by (simp_all add: is_phy_call_def)

lemma handshake_logged_effect [simp]:
  "inp (handshake_logged reg msk d usec msg w) = inp w"
  "clock (handshake_logged reg msk d usec msg w) = Suc (clock w)"
  "ev_count P (handshake_logged reg msk d usec msg w) =
     ev_count P w + (if inp w (clock w) \<noteq> 0 \<and> P (Pr_err msg) then 1 else 0)"
  by (simp_all add: handshake_logged_def split_beta)

lemma hub_port_resume_not_suspended:
  assumes "inp w (clock w) AND PORT_SUSPEND = 0"
  shows "snd (hub_port_resume wIndex (tegra, w)) = (tegra, w\<lparr>clock := Suc (clock w)\<rparr>)"
  using assms by (simp add: hub_port_resume_def Let_def ehci_readl_def)

lemma hub_port_resume_suspended:
  assumes "inp w (clock w) AND PORT_SUSPEND \<noteq> 0" "inp w (clock w) AND PORT_PE \<noteq> 0"
    "inp w (clock w) AND PORT_RESET = 0"
  shows "fst (hub_port_resume wIndex (tegra, w)) = 0"
    "port_resuming (fst (snd (hub_port_resume wIndex (tegra, w)))) = 1"
    "ev_count is_resume_signal (snd (snd (hub_port_resume wIndex (tegra, w)))) =
       ev_count is_resume_signal w + 1"
    "ev_count (is_phy_call is_preresume) (snd (snd (hub_port_resume wIndex (tegra, w)))) =
       ev_count (is_phy_call is_preresume) w + 1"
    "inp (snd (snd (hub_port_resume wIndex (tegra, w)))) = inp w"
proof -
  have r: "PORT_RESUME \<noteq> 0" by (simp add: PORT_RESUME_def)
  show "fst (hub_port_resume wIndex (tegra, w)) = 0"
    "port_resuming (fst (snd (hub_port_resume wIndex (tegra, w)))) = 1"
    "ev_count is_resume_signal (snd (snd (hub_port_resume wIndex (tegra, w)))) =
       ev_count is_resume_signal w + 1"
    "ev_count (is_phy_call is_preresume) (snd (snd (hub_port_resume wIndex (tegra, w)))) =
       ev_count (is_phy_call is_preresume) w + 1"
    "inp (snd (snd (hub_port_resume wIndex (tegra, w)))) = inp w"
    using assms by (simp_all add: hub_port_resume_def Let_def split_beta r is_preresume_def)
qed

lemma hub_control_clear_suspend:
  "tegra_ehci_hub_control ClearPortFeature USB_PORT_FEAT_SUSPEND wIndex s =
     hub_port_resume wIndex s"
  by (simp add: tegra_ehci_hub_control_def ClearPortFeature_def GetPortStatus_def
      SetPortFeature_def USB_PORT_FEAT_SUSPEND_def USB_PORT_FEAT_ENABLE_def)

text \<open>
  Claim C7, as the code has it. \<^verbatim>\<open>tegra->port_resuming\<close> is not read on the
  \<^verbatim>\<open>ClearPortFeature(USB_PORT_FEAT_SUSPEND)\<close> path: what keeps a resume from being
  started again is the port status. For every controller state, with the flag set or
  not: when the status read shows \<^verbatim>\<open>PORT_SUSPEND\<close> clear (the controller has finished
  the resume), the request changes nothing in the controller state and does nothing to
  the hardware beyond that one read; when the status shows the port enabled, not in
  reset and suspended, the request starts resume signalling (one more write of
  \<^verbatim>\<open>PORT_RESUME\<close>), returns 0 and leaves \<^verbatim>\<open>port_resuming\<close> at 1.
\<close>

theorem port_resume_guard:
  "(inp w (clock w) AND PORT_SUSPEND = 0 \<longrightarrow>
      snd (tegra_ehci_hub_control ClearPortFeature USB_PORT_FEAT_SUSPEND wIndex (tegra, w)) =
        (tegra, w\<lparr>clock := Suc (clock w)\<rparr>)) \<and>
   (inp w (clock w) AND PORT_SUSPEND \<noteq> 0 \<and> inp w (clock w) AND PORT_PE \<noteq> 0 \<and>
    inp w (clock w) AND PORT_RESET = 0 \<longrightarrow>
      fst (tegra_ehci_hub_control ClearPortFeature USB_PORT_FEAT_SUSPEND wIndex (tegra, w)) = 0 \<and>
      port_resuming (fst (snd (tegra_ehci_hub_control ClearPortFeature USB_PORT_FEAT_SUSPEND
                                 wIndex (tegra, w)))) = 1 \<and>
      ev_count is_resume_signal
        (snd (snd (tegra_ehci_hub_control ClearPortFeature USB_PORT_FEAT_SUSPEND wIndex (tegra, w))))
        = ev_count is_resume_signal w + 1)"
  unfolding hub_control_clear_suspend
  using hub_port_resume_not_suspended [of w wIndex tegra]
    hub_port_resume_suspended(1,2,3) [of w wIndex tegra]
  by blast

theorem port_resume_guard_witness:
  "inp w_silent (clock w_silent) AND PORT_SUSPEND = 0 \<and>
   snd (tegra_ehci_hub_control ClearPortFeature USB_PORT_FEAT_SUSPEND 1
          (tegra_utmi_idle\<lparr>port_resuming := 1\<rparr>, w_silent)) =
     (tegra_utmi_idle\<lparr>port_resuming := 1\<rparr>, w_silent\<lparr>clock := Suc (clock w_silent)\<rparr>) \<and>
   inp w_port_suspended (clock w_port_suspended) AND PORT_SUSPEND \<noteq> 0 \<and>
   inp w_port_suspended (clock w_port_suspended) AND PORT_PE \<noteq> 0 \<and>
   inp w_port_suspended (clock w_port_suspended) AND PORT_RESET = 0 \<and>
   ev_count is_resume_signal
     (snd (snd (tegra_ehci_hub_control ClearPortFeature USB_PORT_FEAT_SUSPEND 1
                  (tegra_utmi_idle\<lparr>port_resuming := 1\<rparr>, w_port_suspended)))) = 1"
proof -
  have a: "inp w_silent (clock w_silent) AND PORT_SUSPEND = 0"
    by (simp add: w_silent_def)
  have b: "inp w_port_suspended (clock w_port_suspended) AND PORT_SUSPEND \<noteq> 0"
    "inp w_port_suspended (clock w_port_suspended) AND PORT_PE \<noteq> 0"
    "inp w_port_suspended (clock w_port_suspended) AND PORT_RESET = 0"
    by (simp_all add: w_port_suspended_def PORT_SUSPEND_def PORT_PE_def PORT_RESET_def)
  have z: "ev_count is_resume_signal w_port_suspended = 0"
    by (simp add: ev_count_def w_port_suspended_def)
  from port_resume_guard [of w_silent 1 "tegra_utmi_idle\<lparr>port_resuming := 1\<rparr>"] a
  have c: "snd (tegra_ehci_hub_control ClearPortFeature USB_PORT_FEAT_SUSPEND 1
          (tegra_utmi_idle\<lparr>port_resuming := 1\<rparr>, w_silent)) =
     (tegra_utmi_idle\<lparr>port_resuming := 1\<rparr>, w_silent\<lparr>clock := Suc (clock w_silent)\<rparr>)"
    by blast
  from port_resume_guard [of w_port_suspended 1 "tegra_utmi_idle\<lparr>port_resuming := 1\<rparr>"] b z
  have d: "ev_count is_resume_signal
     (snd (snd (tegra_ehci_hub_control ClearPortFeature USB_PORT_FEAT_SUSPEND 1
                  (tegra_utmi_idle\<lparr>port_resuming := 1\<rparr>, w_port_suspended)))) = 1"
    by simp
  from a b c d show ?thesis by blast
qed

text \<open>
  Claim C7 as stated fails. On a port whose status keeps reading enabled and suspended,
  a first resume request sets \<^verbatim>\<open>port_resuming\<close> to 1 (its handshakes time out and are
  only logged); the second request, made in that state, starts resume signalling again:
  the trace then holds two writes of \<^verbatim>\<open>PORT_RESUME\<close>.
\<close>

theorem port_resume_restarts_while_resuming:
  "port_resuming (fst (snd c7_first_resume)) = 1 \<and>
   ev_count is_resume_signal (snd (snd c7_first_resume)) = 1 \<and>
   ev_count is_resume_signal (snd (snd c7_second_resume)) = 2"
proof -
  have s: "inp w_port_suspended n AND PORT_SUSPEND \<noteq> 0"
    "inp w_port_suspended n AND PORT_PE \<noteq> 0"
    "inp w_port_suspended n AND PORT_RESET = 0" for n
    by (simp_all add: w_port_suspended_def PORT_SUSPEND_def PORT_PE_def PORT_RESET_def)
  have z: "ev_count is_resume_signal w_port_suspended = 0"
    by (simp add: ev_count_def w_port_suspended_def)
  have first: "c7_first_resume = hub_port_resume 1 (tegra_utmi_idle, w_port_suspended)"
    by (simp add: c7_first_resume_def hub_control_clear_suspend)
  note r1 = hub_port_resume_suspended [OF s, of 1 tegra_utmi_idle, folded first]
  obtain t1 w1 where sw: "snd c7_first_resume = (t1, w1)" by (cases "snd c7_first_resume")
  have w1: "inp w1 = inp w_port_suspended" "ev_count is_resume_signal w1 = 1"
    "port_resuming t1 = 1"
    using r1 sw z by simp_all
  have s1: "inp w1 (clock w1) AND PORT_SUSPEND \<noteq> 0" "inp w1 (clock w1) AND PORT_PE \<noteq> 0"
    "inp w1 (clock w1) AND PORT_RESET = 0"
    unfolding w1(1) by (rule s)+
  have second: "c7_second_resume = hub_port_resume 1 (t1, w1)"
    by (simp add: c7_second_resume_def hub_control_clear_suspend sw)
  from hub_port_resume_suspended(3) [OF s1, of 1 t1, folded second] w1(2)
  have "ev_count is_resume_signal (snd (snd c7_second_resume)) = 2" by simp
  with r1 z show ?thesis by simp
qed

lemma usecs_ehci_prims [simp]:
  "usecs (emit e w) = usecs w"
  "usecs (ehci_writel v reg w) = usecs w"
  "usecs (snd (ehci_readl reg w)) = usecs w"
  "usecs (snd (handshake reg msk d usec w)) = usecs w"
  "usecs (msleep n w) = usecs w + 1000 * n"
  "usecs (udelay n w) = usecs w + n"
  "usecs (mdelay n w) = usecs w + 1000 * n"
  "usecs (kernel_call name w) = usecs w"
  "usecs (snd (kernel_call_ret name w)) = usecs w"
  "usecs (clk_enable name w) = usecs w"
  "usecs (clk_disable name w) = usecs w"
  "usecs (phy_call_void op tegra w) = usecs w"
  "usecs (snd (phy_call op tegra w)) = usecs w"
  by (simp_all add: emit_def ehci_writel_def ehci_readl_def handshake_def msleep_def
      udelay_def mdelay_def kernel_call_def kernel_call_ret_def clk_enable_def clk_disable_def
      phy_call_void_def phy_call_def)

lemma is_restore_start_simps [simp]:
  "is_restore_start_at v (Phy_restore_start speed) = (speed = v)"
  "is_restore_start_at v Phy_restore_end = False"
  "is_restore_start_at v Phy_power_on = False"
  "is_restore_start_at v Phy_bus_idle = False"
  "is_restore_start_at v Phy_is_device_connected = False"
  "is_restore_end (Phy_restore_start speed) = False"
  "is_restore_end Phy_restore_end = True"
  "is_restore_end Phy_power_on = False"
  "is_restore_end Phy_bus_idle = False"
  "is_restore_end Phy_is_device_connected = False"
  "is_preresume Phy_preresume = True"
  "is_restore_start (Phy_restore_start speed) = True"
  "is_restore_start Phy_restore_end = False"
  "is_restore_start Phy_power_on = False"
  "is_restore_start Phy_bus_idle = False"
  "is_restore_start Phy_is_device_connected = False"
  by (auto simp: is_restore_start_def is_restore_start_at_def is_restore_end_def is_preresume_def)

lemma tegra_ehci_power_up_effect:
  "phy (fst (tegra_ehci_power_up (tegra, w))) = phy tegra"
  "port_speed (fst (tegra_ehci_power_up (tegra, w))) = port_speed tegra"
  "is_hsic (fst (tegra_ehci_power_up (tegra, w))) = is_hsic tegra"
  "inp (snd (tegra_ehci_power_up (tegra, w))) = inp w"
  "usecs w \<le> usecs (snd (tegra_ehci_power_up (tegra, w)))"
  "ev_count (is_phy_call P) (snd (tegra_ehci_power_up (tegra, w))) =
     ev_count (is_phy_call P) w + (if P Phy_power_on then 1 else 0)"
  by (simp_all add: tegra_ehci_power_up_def Let_def is_hsic_def)

lemma tegra_ehci_restart_effect:
  "phy (fst (tegra_ehci_restart (tegra, w))) = phy tegra"
  "port_speed (fst (tegra_ehci_restart (tegra, w))) = port_speed tegra"
  "device_ready_for_reset (fst (tegra_ehci_restart (tegra, w))) = device_ready_for_reset tegra"
  "inp (snd (tegra_ehci_restart (tegra, w))) = inp w"
  "usecs (snd (tegra_ehci_restart (tegra, w))) = usecs w"
  "ev_count (is_phy_call P) (snd (tegra_ehci_restart (tegra, w))) = ev_count (is_phy_call P) w"
  by (simp_all add: tegra_ehci_restart_def Let_def split_beta)

lemma usb_resume_restart_effect:
  "fst (usb_resume_restart (tegra, w)) = 0"
  "usecs (snd (snd (usb_resume_restart (tegra, w)))) = usecs w"
  "ev_count (is_phy_call is_restore_start) (snd (snd (usb_resume_restart (tegra, w)))) =
     ev_count (is_phy_call is_restore_start) w"
  "ev_count (is_phy_call (is_restore_start_at v)) (snd (snd (usb_resume_restart (tegra, w)))) =
     ev_count (is_phy_call (is_restore_start_at v)) w"
  "ev_count (is_phy_call is_restore_end) (snd (snd (usb_resume_restart (tegra, w)))) =
     ev_count (is_phy_call is_restore_end) w +
       (if \<not> is_hsic tegra \<or> port_speed tegra \<le> TEGRA_USB_PHY_PORT_SPEED_HIGH then 1 else 0)"
  by (simp_all add: usb_resume_restart_def Let_def split_beta tegra_ehci_restart_effect)

lemma tegra_usb_resume_effect:
  "fst (tegra_usb_resume (tegra, w)) = 0"
  "ev_count (is_phy_call is_restore_start) (snd (snd (tegra_usb_resume (tegra, w)))) =
     ev_count (is_phy_call is_restore_start) w +
       (if \<not> is_hsic tegra \<and> port_speed tegra \<le> TEGRA_USB_PHY_PORT_SPEED_HIGH then 1 else 0)"
  "ev_count (is_phy_call (is_restore_start_at (port_speed tegra)))
       (snd (snd (tegra_usb_resume (tegra, w)))) =
     ev_count (is_phy_call (is_restore_start_at (port_speed tegra))) w +
       (if \<not> is_hsic tegra \<and> port_speed tegra \<le> TEGRA_USB_PHY_PORT_SPEED_HIGH then 1 else 0)"
  "ev_count (is_phy_call is_restore_end) (snd (snd (tegra_usb_resume (tegra, w)))) =
     ev_count (is_phy_call is_restore_end) w +
       (if \<not> is_hsic tegra \<or> port_speed tegra \<le> TEGRA_USB_PHY_PORT_SPEED_HIGH then 1 else 0)"
  "\<not> is_hsic tegra \<and> TEGRA_USB_PHY_PORT_SPEED_HIGH < port_speed tegra \<longrightarrow>
     usecs w + 10000 \<le> usecs (snd (snd (tegra_usb_resume (tegra, w))))"
proof -
  let ?t0 = "tegra\<lparr>hcd_flag_hw_accessible := True\<rparr>"
  let ?S = "ev_count (is_phy_call is_restore_start)"
  let ?Sv = "ev_count (is_phy_call (is_restore_start_at (port_speed tegra)))"
  let ?E = "ev_count (is_phy_call is_restore_end)"
  obtain t1 w1 where up: "tegra_ehci_power_up (?t0, w) = (t1, w1)"
    by (cases "tegra_ehci_power_up (?t0, w)")
  have h0: "is_hsic ?t0 = is_hsic tegra" by (simp add: is_hsic_def)
  have t1: "is_hsic t1 = is_hsic tegra" "port_speed t1 = port_speed tegra"
    "usecs w \<le> usecs w1" "?S w1 = ?S w" "?Sv w1 = ?Sv w" "?E w1 = ?E w"
    using tegra_ehci_power_up_effect [where tegra = ?t0 and w = w] h0 unfolding up by simp_all
  consider (hsic) "is_hsic tegra"
    | (absent) "\<not> is_hsic tegra" "TEGRA_USB_PHY_PORT_SPEED_HIGH < port_speed tegra"
    | (present) "\<not> is_hsic tegra" "port_speed tegra \<le> TEGRA_USB_PHY_PORT_SPEED_HIGH"
    by fastforce
  then have "fst (tegra_usb_resume (tegra, w)) = 0 \<and>
    ?S (snd (snd (tegra_usb_resume (tegra, w)))) =
      ?S w + (if \<not> is_hsic tegra \<and> port_speed tegra \<le> TEGRA_USB_PHY_PORT_SPEED_HIGH then 1 else 0) \<and>
    ?Sv (snd (snd (tegra_usb_resume (tegra, w)))) =
      ?Sv w + (if \<not> is_hsic tegra \<and> port_speed tegra \<le> TEGRA_USB_PHY_PORT_SPEED_HIGH then 1 else 0) \<and>
    ?E (snd (snd (tegra_usb_resume (tegra, w)))) =
      ?E w + (if \<not> is_hsic tegra \<or> port_speed tegra \<le> TEGRA_USB_PHY_PORT_SPEED_HIGH then 1 else 0) \<and>
    (\<not> is_hsic tegra \<and> TEGRA_USB_PHY_PORT_SPEED_HIGH < port_speed tegra \<longrightarrow>
       usecs w + 10000 \<le> usecs (snd (snd (tegra_usb_resume (tegra, w)))))"
  proof cases
    case hsic
    then have "tegra_usb_resume (tegra, w) = usb_resume_restart (t1, w1)"
      by (simp add: tegra_usb_resume_def Let_def up)
    then show ?thesis
      using hsic t1 by (simp add: usb_resume_restart_effect)
  next
    case absent
    then have r: "tegra_usb_resume (tegra, w) = usb_resume_restart (t1, msleep 10 w1)"
      by (simp add: tegra_usb_resume_def Let_def up t1)
    have nle: "\<not> port_speed tegra \<le> TEGRA_USB_PHY_PORT_SPEED_HIGH"
      using absent(2) by simp
    show ?thesis
      unfolding r using absent(1) nle t1 by (simp add: usb_resume_restart_effect)
  next
    case present
    have nlt: "\<not> TEGRA_USB_PHY_PORT_SPEED_HIGH < port_speed tegra"
      using present(2) by simp
    show ?thesis
      using present nlt t1
      by (simp add: tegra_usb_resume_def Let_def split_beta up usb_resume_restart_effect)
  qed
  then show "fst (tegra_usb_resume (tegra, w)) = 0"
    and "?S (snd (snd (tegra_usb_resume (tegra, w)))) =
      ?S w + (if \<not> is_hsic tegra \<and> port_speed tegra \<le> TEGRA_USB_PHY_PORT_SPEED_HIGH then 1 else 0)"
    and "?Sv (snd (snd (tegra_usb_resume (tegra, w)))) =
      ?Sv w + (if \<not> is_hsic tegra \<and> port_speed tegra \<le> TEGRA_USB_PHY_PORT_SPEED_HIGH then 1 else 0)"
    and "?E (snd (snd (tegra_usb_resume (tegra, w)))) =
      ?E w + (if \<not> is_hsic tegra \<or> port_speed tegra \<le> TEGRA_USB_PHY_PORT_SPEED_HIGH then 1 else 0)"
    and "\<not> is_hsic tegra \<and> TEGRA_USB_PHY_PORT_SPEED_HIGH < port_speed tegra \<longrightarrow>
     usecs w + 10000 \<le> usecs (snd (snd (tegra_usb_resume (tegra, w))))"
    by blast+
qed

text \<open>
  Claim C4, as the code has it. The branch that waits and restarts is taken when the
  recorded speed is above \<^verbatim>\<open>TEGRA_USB_PHY_PORT_SPEED_HIGH\<close>, not when it is at or below
  it. On a controller that is not HSIC, after a suspend that recorded a speed up to and
  including high, \<^verbatim>\<open>tegra_usb_resume\<close> returns 0 and calls
  \<^verbatim>\<open>tegra_ehci_phy_restore_start\<close> once, with the recorded speed, and
  \<^verbatim>\<open>tegra_ehci_phy_restore_end\<close> once, whether the handshakes succeed or it falls
  through to the restart. With a recorded speed above high it waits at least 10 ms,
  does not call \<^verbatim>\<open>tegra_ehci_phy_restore_start\<close>, restarts, and calls
  \<^verbatim>\<open>tegra_ehci_phy_restore_end\<close> once. On an HSIC controller it goes to the restart
  without \<^verbatim>\<open>tegra_ehci_phy_restore_start\<close>, and calls \<^verbatim>\<open>tegra_ehci_phy_restore_end\<close>
  exactly when the recorded speed is at most high.
\<close>

theorem usb_resume_restore_calls:
  "(\<not> is_hsic tegra \<and> port_speed tegra \<le> TEGRA_USB_PHY_PORT_SPEED_HIGH \<longrightarrow>
      fst (tegra_usb_resume (tegra, w)) = 0 \<and>
      ev_count (is_phy_call is_restore_start) (snd (snd (tegra_usb_resume (tegra, w)))) =
        ev_count (is_phy_call is_restore_start) w + 1 \<and>
      ev_count (is_phy_call (is_restore_start_at (port_speed tegra)))
          (snd (snd (tegra_usb_resume (tegra, w)))) =
        ev_count (is_phy_call (is_restore_start_at (port_speed tegra))) w + 1 \<and>
      ev_count (is_phy_call is_restore_end) (snd (snd (tegra_usb_resume (tegra, w)))) =
        ev_count (is_phy_call is_restore_end) w + 1) \<and>
   (\<not> is_hsic tegra \<and> TEGRA_USB_PHY_PORT_SPEED_HIGH < port_speed tegra \<longrightarrow>
      fst (tegra_usb_resume (tegra, w)) = 0 \<and>
      usecs w + 10000 \<le> usecs (snd (snd (tegra_usb_resume (tegra, w)))) \<and>
      ev_count (is_phy_call is_restore_start) (snd (snd (tegra_usb_resume (tegra, w)))) =
        ev_count (is_phy_call is_restore_start) w \<and>
      ev_count (is_phy_call is_restore_end) (snd (snd (tegra_usb_resume (tegra, w)))) =
        ev_count (is_phy_call is_restore_end) w + 1) \<and>
   (is_hsic tegra \<longrightarrow>
      fst (tegra_usb_resume (tegra, w)) = 0 \<and>
      ev_count (is_phy_call is_restore_start) (snd (snd (tegra_usb_resume (tegra, w)))) =
        ev_count (is_phy_call is_restore_start) w \<and>
      ev_count (is_phy_call is_restore_end) (snd (snd (tegra_usb_resume (tegra, w)))) =
        ev_count (is_phy_call is_restore_end) w +
          (if port_speed tegra \<le> TEGRA_USB_PHY_PORT_SPEED_HIGH then 1 else 0))"
  using tegra_usb_resume_effect [of tegra w]
  by (auto simp: not_le)

theorem usb_resume_restore_calls_witness:
  "\<not> is_hsic tegra_utmi_high_speed \<and>
   port_speed tegra_utmi_high_speed \<le> TEGRA_USB_PHY_PORT_SPEED_HIGH \<and>
   ev_count (is_phy_call (is_restore_start_at (port_speed tegra_utmi_high_speed)))
     (snd (snd (tegra_usb_resume (tegra_utmi_high_speed, w_silent)))) = 1 \<and>
   ev_count (is_phy_call is_restore_end)
     (snd (snd (tegra_usb_resume (tegra_utmi_high_speed, w_silent)))) = 1 \<and>
   \<not> is_hsic tegra_utmi_no_device \<and>
   TEGRA_USB_PHY_PORT_SPEED_HIGH < port_speed tegra_utmi_no_device \<and>
   ev_count (is_phy_call is_restore_start)
     (snd (snd (tegra_usb_resume (tegra_utmi_no_device, w_silent)))) = 0 \<and>
   ev_count (is_phy_call is_restore_end)
     (snd (snd (tegra_usb_resume (tegra_utmi_no_device, w_silent)))) = 1 \<and>
   is_hsic tegra_hsic_idle \<and>
   ev_count (is_phy_call is_restore_start)
     (snd (snd (tegra_usb_resume (tegra_hsic_idle, w_silent)))) = 0"
proof -
  have z: "ev_count P w_silent = 0" for P by (simp add: ev_count_def w_silent_def)
  have a: "\<not> is_hsic tegra_utmi_high_speed"
    "port_speed tegra_utmi_high_speed \<le> TEGRA_USB_PHY_PORT_SPEED_HIGH"
    by (simp_all add: tegra_utmi_high_speed_def tegra_utmi_idle_def is_hsic_def utmi_phy0_def)
  have b: "\<not> is_hsic tegra_utmi_no_device"
    "TEGRA_USB_PHY_PORT_SPEED_HIGH < port_speed tegra_utmi_no_device"
    by (simp_all add: tegra_utmi_no_device_def tegra_utmi_idle_def is_hsic_def utmi_phy0_def
        TEGRA_USB_PHY_PORT_SPEED_HIGH_def)
  have c: "is_hsic tegra_hsic_idle"
    by (simp add: tegra_hsic_idle_def is_hsic_def hsic_phy1_def ulpi_inf_type_def hsic_config_def)
  from usb_resume_restore_calls [of tegra_utmi_high_speed w_silent] a
  have a': "ev_count (is_phy_call (is_restore_start_at (port_speed tegra_utmi_high_speed)))
     (snd (snd (tegra_usb_resume (tegra_utmi_high_speed, w_silent)))) = 1"
    "ev_count (is_phy_call is_restore_end)
     (snd (snd (tegra_usb_resume (tegra_utmi_high_speed, w_silent)))) = 1"
    by (simp_all add: z)
  from usb_resume_restore_calls [of tegra_utmi_no_device w_silent] b
  have b': "ev_count (is_phy_call is_restore_start)
     (snd (snd (tegra_usb_resume (tegra_utmi_no_device, w_silent)))) = 0"
    "ev_count (is_phy_call is_restore_end)
     (snd (snd (tegra_usb_resume (tegra_utmi_no_device, w_silent)))) = 1"
    by (simp_all add: z)
  from usb_resume_restore_calls [of tegra_hsic_idle w_silent] c
  have c': "ev_count (is_phy_call is_restore_start)
     (snd (snd (tegra_usb_resume (tegra_hsic_idle, w_silent)))) = 0"
    by (simp add: z)
  from a a' b b' c c' show ?thesis by blast
qed

text \<open>
  Claim C4 as stated fails. On the UTMI controller, after a suspend that recorded high
  speed, with every handshake succeeding, \<^verbatim>\<open>tegra_usb_resume\<close> calls
  \<^verbatim>\<open>tegra_ehci_phy_restore_start\<close> and \<^verbatim>\<open>tegra_ehci_phy_restore_end\<close> once each, and
  the delays add up to 30 us: the 10 ms wait of the other branch is not made.
\<close>

theorem usb_resume_high_speed_restores:
  "port_speed tegra_utmi_high_speed = TEGRA_USB_PHY_PORT_SPEED_HIGH \<and>
   ev_count (is_phy_call is_restore_start)
     (snd (snd (tegra_usb_resume (tegra_utmi_high_speed, w_silent)))) = 1 \<and>
   ev_count (is_phy_call is_restore_end)
     (snd (snd (tegra_usb_resume (tegra_utmi_high_speed, w_silent)))) = 1 \<and>
   usecs (snd (snd (tegra_usb_resume (tegra_utmi_high_speed, w_silent)))) = 30"
  by (simp add: tegra_utmi_high_speed_def tegra_utmi_idle_def w_silent_def utmi_phy0_def
      tegra_usb_resume_def tegra_ehci_power_up_def is_hsic_def Let_def split_beta
      TEGRA_USB_PHY_PORT_SPEED_HIGH_def ev_count_def phy_call_def phy_call_void_def emit_def
      clk_enable_def kernel_call_def ehci_readl_def ehci_writel_def udelay_def handshake_def
      is_phy_call_def is_restore_start_def is_restore_end_def)

lemma retry_connect_loop_timeout:
  "\<forall>i<n. inp w (clock w + i) = 0 \<Longrightarrow>
   retry_connect_loop n (tegra, w) =
     (tegra, w\<lparr>clock := clock w + n, usecs := usecs w + 50000 * n,
              trace := trace w @ replicate n (Phy Phy_is_device_connected
                                               (device_ready_for_reset tegra) 0)\<rparr>)"
proof (induction n arbitrary: w)
  case 0
  then show ?case by simp
next
  case (Suc n)
  let ?e = "Phy Phy_is_device_connected (device_ready_for_reset tegra) 0"
  let ?w1 = "msleep 50 (snd (phy_call Phy_is_device_connected tegra w))"
  from Suc.prems have z: "inp w (clock w) = 0" by (metis add.right_neutral zero_less_Suc)
  have w1: "inp ?w1 = inp w" "clock ?w1 = Suc (clock w)" "usecs ?w1 = usecs w + 50000"
    "trace ?w1 = trace w @ [?e]"
    by (simp_all add: phy_call_def msleep_def udelay_def emit_def z)
  have "\<forall>i<n. inp ?w1 (clock ?w1 + i) = 0"
  proof (intro allI impI)
    fix i assume "i < n"
    then have "Suc i < Suc n" by simp
    with Suc.prems have "inp w (clock w + Suc i) = 0" by blast
    then show "inp ?w1 (clock ?w1 + i) = 0" by (simp add: w1)
  qed
  from Suc.IH [OF this]
  have "retry_connect_loop n (tegra, ?w1) =
     (tegra, ?w1\<lparr>clock := clock ?w1 + n, usecs := usecs ?w1 + 50000 * n,
              trace := trace ?w1 @ replicate n ?e\<rparr>)" .
  moreover have "retry_connect_loop (Suc n) (tegra, w) = retry_connect_loop n (tegra, ?w1)"
    using z by (simp add: split_beta)
  ultimately show ?case
    by (simp add: w1 replicate_app_Cons_same)
qed

lemma retry_connect_loop_found:
  "k < n \<Longrightarrow> \<forall>i<k. inp w (clock w + i) = 0 \<Longrightarrow> inp w (clock w + k) \<noteq> 0 \<Longrightarrow>
   retry_connect_loop n (tegra, w) =
     (tegra\<lparr>device_ready_for_reset := True\<rparr>,
      w\<lparr>clock := clock w + Suc k, usecs := usecs w + 50000 * k,
        trace := trace w @ replicate k (Phy Phy_is_device_connected
                                         (device_ready_for_reset tegra) 0)
                 @ [Phy Phy_is_device_connected (device_ready_for_reset tegra)
                      (inp w (clock w + k))]\<rparr>)"
proof (induction n arbitrary: w k)
  case 0
  then show ?case by simp
next
  case (Suc n)
  let ?e = "Phy Phy_is_device_connected (device_ready_for_reset tegra) 0"
  show ?case
  proof (cases k)
    case 0
    with Suc.prems show ?thesis
      by (simp add: split_beta) (simp add: phy_call_def emit_def)
  next
    case (Suc j)
    let ?w1 = "msleep 50 (snd (phy_call Phy_is_device_connected tegra w))"
    from Suc.prems(2) Suc have z: "inp w (clock w) = 0"
      by (metis add.right_neutral zero_less_Suc)
    have w1: "inp ?w1 = inp w" "clock ?w1 = Suc (clock w)" "usecs ?w1 = usecs w + 50000"
      "trace ?w1 = trace w @ [?e]"
      by (simp_all add: phy_call_def msleep_def udelay_def emit_def z)
    have a: "j < n" using Suc.prems(1) Suc by simp
    have b: "\<forall>i<j. inp ?w1 (clock ?w1 + i) = 0"
    proof (intro allI impI)
      fix i assume "i < j"
      then have "Suc i < k" using Suc by simp
      with Suc.prems(2) have "inp w (clock w + Suc i) = 0" by blast
      then show "inp ?w1 (clock ?w1 + i) = 0" by (simp add: w1)
    qed
    have c: "inp ?w1 (clock ?w1 + j) \<noteq> 0"
      using Suc.prems(3) Suc by (simp add: w1)
    have "retry_connect_loop (Suc n) (tegra, w) = retry_connect_loop n (tegra, ?w1)"
      using z by (simp add: split_beta)
    with Suc.IH [OF a b c] show ?thesis
      using Suc
      by (simp add: w1 replicate_app_Cons_same)
  qed
qed

lemma hsic_port_reset_ready:
  assumes "device_ready_for_reset tegra"
  shows "hsic_port_reset (tegra, w) =
     (sint (inp w (clock w)), tegra\<lparr>device_ready_for_reset := False\<rparr>,
      w\<lparr>clock := Suc (clock w),
        trace := trace w @ [Phy Phy_bus_reset True (inp w (clock w))]\<rparr>)"
  using assms by (simp add: hsic_port_reset_def hsic_presence_poll_def hsic_reset_if_ready_def phy_call_def emit_def)

lemma hsic_port_reset_timeout:
  assumes "\<not> device_ready_for_reset tegra" "\<forall>i<20. inp w (clock w + 1 + i) = 0"
  shows "hsic_port_reset (tegra, w) =
     (0, tegra,
      w\<lparr>clock := clock w + 21, usecs := usecs w + 1000000,
        trace := trace w @ Phy Phy_bus_idle False (inp w (clock w))
                 # replicate 20 (Phy Phy_is_device_connected False 0)\<rparr>)"
proof -
  let ?w0 = "snd (phy_call Phy_bus_idle tegra w)"
  have w0: "inp ?w0 = inp w" "clock ?w0 = Suc (clock w)" "usecs ?w0 = usecs w"
    "trace ?w0 = trace w @ [Phy Phy_bus_idle False (inp w (clock w))]"
    using assms(1) by (simp_all add: phy_call_def emit_def)
  have "\<forall>i<20. inp ?w0 (clock ?w0 + i) = 0"
    using assms(2) by (simp add: w0)
  from retry_connect_loop_timeout [OF this, of tegra]
  have "retry_connect_loop 20 (tegra, ?w0) =
     (tegra, ?w0\<lparr>clock := clock ?w0 + 20, usecs := usecs ?w0 + 50000 * 20,
              trace := trace ?w0 @ replicate 20 (Phy Phy_is_device_connected False 0)\<rparr>)"
    using assms(1) by simp
  then show ?thesis
    using assms(1) by (simp add: hsic_port_reset_def hsic_presence_poll_def hsic_reset_if_ready_def w0)
qed

lemma hsic_port_reset_found:
  assumes "\<not> device_ready_for_reset tegra" "k < 20" "\<forall>i<k. inp w (clock w + 1 + i) = 0"
    "inp w (clock w + 1 + k) \<noteq> 0"
  shows "hsic_port_reset (tegra, w) =
     (sint (inp w (clock w + k + 2)), tegra,
      w\<lparr>clock := clock w + k + 3, usecs := usecs w + 50000 * k,
        trace := trace w @ Phy Phy_bus_idle False (inp w (clock w))
                 # replicate k (Phy Phy_is_device_connected False 0)
                 @ [Phy Phy_is_device_connected False (inp w (clock w + 1 + k)),
                    Phy Phy_bus_reset True (inp w (clock w + k + 2))]\<rparr>)"
proof -
  let ?w0 = "snd (phy_call Phy_bus_idle tegra w)"
  have w0: "inp ?w0 = inp w" "clock ?w0 = Suc (clock w)" "usecs ?w0 = usecs w"
    "trace ?w0 = trace w @ [Phy Phy_bus_idle False (inp w (clock w))]"
    using assms(1) by (simp_all add: phy_call_def emit_def)
  have a: "\<forall>i<k. inp ?w0 (clock ?w0 + i) = 0" "inp ?w0 (clock ?w0 + k) \<noteq> 0"
    using assms(3,4) by (simp_all add: w0)
  have t: "tegra\<lparr>device_ready_for_reset := False\<rparr> = tegra"
    using assms(1) by simp
  from retry_connect_loop_found [OF assms(2) a, of tegra]
  have "retry_connect_loop 20 (tegra, ?w0) =
     (tegra\<lparr>device_ready_for_reset := True\<rparr>,
      ?w0\<lparr>clock := clock ?w0 + Suc k, usecs := usecs ?w0 + 50000 * k,
        trace := trace ?w0 @ replicate k (Phy Phy_is_device_connected False 0)
                 @ [Phy Phy_is_device_connected False (inp ?w0 (clock ?w0 + k))]\<rparr>)"
    using assms(1) by simp
  then show ?thesis
    using assms(1) by (simp add: hsic_port_reset_def hsic_presence_poll_def hsic_reset_if_ready_def w0 t) (simp add: phy_call_def emit_def)
qed

lemma ev_count_trace_append:
  "ev_count P (w\<lparr>clock := c, usecs := u, trace := trace w @ es\<rparr>) =
     ev_count P w + length (filter P es)"
  by (simp add: ev_count_def)

lemma hub_control_hsic_reset:
  assumes "is_hsic tegra" "uint (wIndex AND 0xff) = 1" "1 \<le> HCS_N_PORTS (hcs_params tegra)"
    "reset_goes_ahead tegra (inp w (clock w))"
  shows "tegra_ehci_hub_control SetPortFeature USB_PORT_FEAT_RESET wIndex (tegra, w) =
     hsic_port_reset
       (tegra\<lparr>reset_done := (reset_done tegra)(0 := Jiffies_plus_msecs 50)\<rparr>,
        ehci_writel ((inp w (clock w) AND NOT PORT_RWC_BITS) AND NOT PORT_PE) (Port_status 0)
          (snd (ehci_readl (Port_status 0) w)))"
proof -
  have "tegra_ehci_hub_control SetPortFeature USB_PORT_FEAT_RESET wIndex (tegra, w) =
        hsic_port_feature USB_PORT_FEAT_RESET wIndex (tegra, w)"
    using assms(1)
    by (simp add: tegra_ehci_hub_control_def hub_control_tail_def SetPortFeature_def
        ClearPortFeature_def GetPortStatus_def USB_PORT_FEAT_RESET_def USB_PORT_FEAT_SUSPEND_def
        USB_PORT_FEAT_ENABLE_def)
  also have "\<dots> = hsic_port_reset
       (tegra\<lparr>reset_done := (reset_done tegra)(0 := Jiffies_plus_msecs 50)\<rparr>,
        ehci_writel ((inp w (clock w) AND NOT PORT_RWC_BITS) AND NOT PORT_PE) (Port_status 0)
          (snd (ehci_readl (Port_status 0) w)))"
    using assms(2,3,4)
    by (auto simp: hsic_port_feature_def Let_def reset_goes_ahead_def ehci_readl_def
        split: if_splits)
  finally show ?thesis .
qed

lemma phy_pred_simps [simp]:
  "is_bus_reset Phy_bus_reset = True" "is_bus_reset Phy_bus_idle = False"
  "is_bus_reset Phy_is_device_connected = False" "is_bus_reset Phy_bus_connect = False"
  "is_connected_poll Phy_is_device_connected = True" "is_connected_poll Phy_bus_idle = False"
  "is_connected_poll Phy_bus_reset = False" "is_connected_poll Phy_bus_connect = False"
  "is_connected_true (Phy op ready ret) = (op = Phy_is_device_connected \<and> ret \<noteq> 0)"
  "is_connected_true (Ehci_writel reg v) = False"
  by (simp_all add: is_bus_reset_def is_connected_poll_def is_connected_true_def)

lemma hsic_port_reset_effect:
  fixes tegra w
  defines "R \<equiv> hsic_port_reset (tegra, w)"
  shows "\<not> device_ready_for_reset (fst (snd R))"
    and "inp (snd (snd R)) = inp w"
    and "device_ready_for_reset tegra \<Longrightarrow>
         ev_count (is_phy_call is_connected_poll) (snd (snd R)) =
           ev_count (is_phy_call is_connected_poll) w \<and>
         ev_count (is_phy_call is_bus_reset) (snd (snd R)) =
           ev_count (is_phy_call is_bus_reset) w + 1"
    and "\<not> device_ready_for_reset tegra \<Longrightarrow> \<exists>i<20. inp w (clock w + 1 + i) \<noteq> 0 \<Longrightarrow>
         ev_count (is_phy_call is_connected_poll) (snd (snd R)) \<le>
           ev_count (is_phy_call is_connected_poll) w + 20 \<and>
         ev_count is_connected_true (snd (snd R)) = ev_count is_connected_true w + 1 \<and>
         ev_count (is_phy_call is_bus_reset) (snd (snd R)) =
           ev_count (is_phy_call is_bus_reset) w + 1"
    and "\<not> device_ready_for_reset tegra \<Longrightarrow> \<forall>i<20. inp w (clock w + 1 + i) = 0 \<Longrightarrow>
         fst R = 0 \<and>
         ev_count (is_phy_call is_connected_poll) (snd (snd R)) =
           ev_count (is_phy_call is_connected_poll) w + 20 \<and>
         ev_count is_connected_true (snd (snd R)) = ev_count is_connected_true w \<and>
         ev_count (is_phy_call is_bus_reset) (snd (snd R)) =
           ev_count (is_phy_call is_bus_reset) w \<and>
         usecs (snd (snd R)) = usecs w + 1000000"
proof -
  have ready: "device_ready_for_reset tegra \<Longrightarrow>
      R = (sint (inp w (clock w)), tegra\<lparr>device_ready_for_reset := False\<rparr>,
           w\<lparr>clock := Suc (clock w),
             trace := trace w @ [Phy Phy_bus_reset True (inp w (clock w))]\<rparr>)"
    unfolding R_def by (rule hsic_port_reset_ready)
  have timeout: "\<not> device_ready_for_reset tegra \<Longrightarrow> \<forall>i<20. inp w (clock w + 1 + i) = 0 \<Longrightarrow>
      R = (0, tegra,
           w\<lparr>clock := clock w + 21, usecs := usecs w + 1000000,
             trace := trace w @ Phy Phy_bus_idle False (inp w (clock w))
                      # replicate 20 (Phy Phy_is_device_connected False 0)\<rparr>)"
    unfolding R_def by (rule hsic_port_reset_timeout)
  have found: "\<exists>k<20. R = (sint (inp w (clock w + k + 2)), tegra,
           w\<lparr>clock := clock w + k + 3, usecs := usecs w + 50000 * k,
             trace := trace w @ Phy Phy_bus_idle False (inp w (clock w))
                      # replicate k (Phy Phy_is_device_connected False 0)
                      @ [Phy Phy_is_device_connected False (inp w (clock w + 1 + k)),
                         Phy Phy_bus_reset True (inp w (clock w + k + 2))]\<rparr>) \<and>
           inp w (clock w + 1 + k) \<noteq> 0"
    if nr: "\<not> device_ready_for_reset tegra" and ex: "\<exists>i<20. inp w (clock w + 1 + i) \<noteq> 0"
  proof -
    define k where "k = (LEAST i. inp w (clock w + 1 + i) \<noteq> 0)"
    from ex obtain i where i: "i < 20" "inp w (clock w + 1 + i) \<noteq> 0" by blast
    have k1: "inp w (clock w + 1 + k) \<noteq> 0"
      unfolding k_def using i(2) by (rule LeastI)
    have k2: "k \<le> i" unfolding k_def using i(2) by (rule Least_le)
    have k3: "\<forall>j<k. inp w (clock w + 1 + j) = 0"
      unfolding k_def using not_less_Least by blast
    have k4: "k < 20" using k2 i(1) by simp
    from hsic_port_reset_found [OF nr k4 k3 k1] k4 k1 show ?thesis
      unfolding R_def by blast
  qed
  have cases: "device_ready_for_reset tegra \<or>
      (\<not> device_ready_for_reset tegra \<and> (\<forall>i<20. inp w (clock w + 1 + i) = 0)) \<or>
      (\<not> device_ready_for_reset tegra \<and> (\<exists>i<20. inp w (clock w + 1 + i) \<noteq> 0))"
    by blast
  show "\<not> device_ready_for_reset (fst (snd R))"
    using cases ready timeout found by (elim disjE conjE) auto
  show "inp (snd (snd R)) = inp w"
    using cases ready timeout found by (elim disjE conjE) auto
  show "device_ready_for_reset tegra \<Longrightarrow>
         ev_count (is_phy_call is_connected_poll) (snd (snd R)) =
           ev_count (is_phy_call is_connected_poll) w \<and>
         ev_count (is_phy_call is_bus_reset) (snd (snd R)) =
           ev_count (is_phy_call is_bus_reset) w + 1"
    using ready by (simp add: ev_count_def)
  show "\<not> device_ready_for_reset tegra \<Longrightarrow> \<exists>i<20. inp w (clock w + 1 + i) \<noteq> 0 \<Longrightarrow>
         ev_count (is_phy_call is_connected_poll) (snd (snd R)) \<le>
           ev_count (is_phy_call is_connected_poll) w + 20 \<and>
         ev_count is_connected_true (snd (snd R)) = ev_count is_connected_true w + 1 \<and>
         ev_count (is_phy_call is_bus_reset) (snd (snd R)) =
           ev_count (is_phy_call is_bus_reset) w + 1"
    using found by (auto simp: ev_count_def)
  show "\<not> device_ready_for_reset tegra \<Longrightarrow> \<forall>i<20. inp w (clock w + 1 + i) = 0 \<Longrightarrow>
         fst R = 0 \<and>
         ev_count (is_phy_call is_connected_poll) (snd (snd R)) =
           ev_count (is_phy_call is_connected_poll) w + 20 \<and>
         ev_count is_connected_true (snd (snd R)) = ev_count is_connected_true w \<and>
         ev_count (is_phy_call is_bus_reset) (snd (snd R)) =
           ev_count (is_phy_call is_bus_reset) w \<and>
         usecs (snd (snd R)) = usecs w + 1000000"
    using timeout by (simp add: ev_count_def)
qed

lemma hsic_reset_if_ready_effect:
  "\<not> device_ready_for_reset (fst (snd (hsic_reset_if_ready s1)))"
  "ev_count (is_phy_call is_bus_reset) (snd (snd (hsic_reset_if_ready s1))) =
     ev_count (is_phy_call is_bus_reset) (snd s1) + (if device_ready_for_reset (fst s1) then 1 else 0)"
  "ev_count (is_phy_call is_connected_poll) (snd (snd (hsic_reset_if_ready s1))) =
     ev_count (is_phy_call is_connected_poll) (snd s1)"
  "ev_count is_connected_true (snd (snd (hsic_reset_if_ready s1))) =
     ev_count is_connected_true (snd s1)"
  by (simp_all add: hsic_reset_if_ready_def split_beta)

lemma hsic_presence_poll_timeout:
  assumes "\<not> device_ready_for_reset tegra" "\<forall>i<20. inp w (clock w + 1 + i) = 0"
  shows "hsic_presence_poll (tegra, w) =
     (tegra,
      w\<lparr>clock := clock w + 21, usecs := usecs w + 1000000,
        trace := trace w @ Phy Phy_bus_idle False (inp w (clock w))
                 # replicate 20 (Phy Phy_is_device_connected False 0)\<rparr>)"
proof -
  let ?w0 = "snd (phy_call Phy_bus_idle tegra w)"
  have w0: "inp ?w0 = inp w" "clock ?w0 = Suc (clock w)" "usecs ?w0 = usecs w"
    "trace ?w0 = trace w @ [Phy Phy_bus_idle False (inp w (clock w))]"
    using assms(1) by (simp_all add: phy_call_def emit_def)
  have "\<forall>i<20. inp ?w0 (clock ?w0 + i) = 0"
    using assms(2) by (simp add: w0)
  from retry_connect_loop_timeout [OF this, of tegra]
  have "retry_connect_loop 20 (tegra, ?w0) =
     (tegra, ?w0\<lparr>clock := clock ?w0 + 20, usecs := usecs ?w0 + 50000 * 20,
              trace := trace ?w0 @ replicate 20 (Phy Phy_is_device_connected False 0)\<rparr>)"
    using assms(1) by simp
  then show ?thesis
    using assms(1) by (simp add: hsic_presence_poll_def w0)
qed

lemma hsic_reset_after_worker:
  assumes "\<not> device_ready_for_reset tegra" "\<forall>i<20. inp w (clock w + 1 + i) = 0"
    "inp w (clock w + 21) \<noteq> 0"
  shows
    "ev_count (is_phy_call is_connected_poll)
        (snd (snd (hsic_reset_if_ready (tegra_hsic_connection_work (hsic_presence_poll (tegra, w)))))) =
       ev_count (is_phy_call is_connected_poll) w + 21"
    "ev_count is_connected_true
        (snd (snd (hsic_reset_if_ready (tegra_hsic_connection_work (hsic_presence_poll (tegra, w)))))) =
       ev_count is_connected_true w + 1"
    "ev_count (is_phy_call is_bus_reset)
        (snd (snd (hsic_reset_if_ready (tegra_hsic_connection_work (hsic_presence_poll (tegra, w)))))) =
       ev_count (is_phy_call is_bus_reset) w + 1"
proof -
  let ?w1 = "w\<lparr>clock := clock w + 21, usecs := usecs w + 1000000,
        trace := trace w @ Phy Phy_bus_idle False (inp w (clock w))
                 # replicate 20 (Phy Phy_is_device_connected False 0)\<rparr>"
  have poll: "hsic_presence_poll (tegra, w) = (tegra, ?w1)"
    using assms(1,2) by (rule hsic_presence_poll_timeout)
  have w1: "inp ?w1 (clock ?w1) \<noteq> 0"
    using assms(3) by simp
  have work: "tegra_hsic_connection_work (tegra, ?w1) =
      (tegra\<lparr>device_ready_for_reset := True, work_count := 0\<rparr>,
       kernel_call ''cancel_delayed_work'' (snd (phy_call Phy_is_device_connected tegra ?w1)))"
    using w1 by (simp add: tegra_hsic_connection_work_def Let_def split_beta)
  have c: "ev_count (is_phy_call is_connected_poll) ?w1 =
             ev_count (is_phy_call is_connected_poll) w + 20"
    "ev_count is_connected_true ?w1 = ev_count is_connected_true w"
    "ev_count (is_phy_call is_bus_reset) ?w1 = ev_count (is_phy_call is_bus_reset) w"
    by (simp_all add: ev_count_def)
  show "ev_count (is_phy_call is_connected_poll)
        (snd (snd (hsic_reset_if_ready (tegra_hsic_connection_work (hsic_presence_poll (tegra, w)))))) =
       ev_count (is_phy_call is_connected_poll) w + 21"
    unfolding poll work using c(1) by (simp add: hsic_reset_if_ready_effect)
  show "ev_count is_connected_true
        (snd (snd (hsic_reset_if_ready (tegra_hsic_connection_work (hsic_presence_poll (tegra, w)))))) =
       ev_count is_connected_true w + 1"
    unfolding poll work using c(2) w1
    by (simp add: hsic_reset_if_ready_effect is_connected_true_def)
  show "ev_count (is_phy_call is_bus_reset)
        (snd (snd (hsic_reset_if_ready (tegra_hsic_connection_work (hsic_presence_poll (tegra, w)))))) =
       ev_count (is_phy_call is_bus_reset) w + 1"
    unfolding poll work using c(3) by (simp add: hsic_reset_if_ready_effect)
qed

text \<open>
  Claim C2, as the code has it. Take a \<^verbatim>\<open>SetPortFeature(USB_PORT_FEAT_RESET)\<close>
  request on port 1 of an HSIC controller whose port status lets the reset go ahead. The
  request is the presence phase followed by the test of \<^verbatim>\<open>device_ready_for_reset\<close>,
  and \<^verbatim>\<open>tegra_usb_phy_bus_reset\<close> is called exactly when the flag is true at that
  test, in whatever state the test is reached; the flag is false afterwards. When
  nothing else of the driver runs during the request: if the flag is already true on
  entry (port power-on, resume or the reconnection worker set it), the reset is called
  at once and no presence poll is made; if it is false, \<^verbatim>\<open>tegra_usb_phy_bus_idle\<close> is
  called and \<^verbatim>\<open>tegra_usb_phy_is_device_connected\<close> is polled at most 20 times; when a
  poll returns true the reset is called; when all 20 polls return false (1 s of sleeps)
  the reset is not called, the request returns 0 and the flag stays false. The source
  drops \<^verbatim>\<open>ehci->lock\<close> around each sleep of the poll, and
  \<^verbatim>\<open>tegra_hsic_connection_work\<close> writes the flag without the lock: when the worker
  runs during the last sleep and finds the device, the 20 polls of the request have all
  returned false, the flag is true at the test and the reset is called. A run of the
  worker during the last sleep leaves the state that a run right after the presence
  phase leaves, which is how the last part is stated.
\<close>

theorem hsic_port_reset_gate:
  assumes "is_hsic tegra" "uint (wIndex AND 0xff) = 1" "1 \<le> HCS_N_PORTS (hcs_params tegra)"
    "reset_goes_ahead tegra (inp w (clock w))"
  shows
   "tegra_ehci_hub_control SetPortFeature USB_PORT_FEAT_RESET wIndex (tegra, w) =
      hsic_reset_if_ready (hsic_presence_poll (hsic_reset_entry tegra w)) \<and>
    \<not> device_ready_for_reset
        (fst (snd (tegra_ehci_hub_control SetPortFeature USB_PORT_FEAT_RESET wIndex (tegra, w)))) \<and>
    (device_ready_for_reset tegra \<longrightarrow>
       ev_count (is_phy_call is_connected_poll)
           (snd (snd (tegra_ehci_hub_control SetPortFeature USB_PORT_FEAT_RESET wIndex (tegra, w)))) =
         ev_count (is_phy_call is_connected_poll) w \<and>
       ev_count (is_phy_call is_bus_reset)
           (snd (snd (tegra_ehci_hub_control SetPortFeature USB_PORT_FEAT_RESET wIndex (tegra, w)))) =
         ev_count (is_phy_call is_bus_reset) w + 1) \<and>
    (\<not> device_ready_for_reset tegra \<and> (\<exists>i<20. inp w (clock w + 2 + i) \<noteq> 0) \<longrightarrow>
       ev_count (is_phy_call is_connected_poll)
           (snd (snd (tegra_ehci_hub_control SetPortFeature USB_PORT_FEAT_RESET wIndex (tegra, w)))) \<le>
         ev_count (is_phy_call is_connected_poll) w + 20 \<and>
       ev_count is_connected_true
           (snd (snd (tegra_ehci_hub_control SetPortFeature USB_PORT_FEAT_RESET wIndex (tegra, w)))) =
         ev_count is_connected_true w + 1 \<and>
       ev_count (is_phy_call is_bus_reset)
           (snd (snd (tegra_ehci_hub_control SetPortFeature USB_PORT_FEAT_RESET wIndex (tegra, w)))) =
         ev_count (is_phy_call is_bus_reset) w + 1) \<and>
    (\<not> device_ready_for_reset tegra \<and> (\<forall>i<20. inp w (clock w + 2 + i) = 0) \<longrightarrow>
       fst (tegra_ehci_hub_control SetPortFeature USB_PORT_FEAT_RESET wIndex (tegra, w)) = 0 \<and>
       ev_count (is_phy_call is_connected_poll)
           (snd (snd (tegra_ehci_hub_control SetPortFeature USB_PORT_FEAT_RESET wIndex (tegra, w)))) =
         ev_count (is_phy_call is_connected_poll) w + 20 \<and>
       ev_count is_connected_true
           (snd (snd (tegra_ehci_hub_control SetPortFeature USB_PORT_FEAT_RESET wIndex (tegra, w)))) =
         ev_count is_connected_true w \<and>
       ev_count (is_phy_call is_bus_reset)
           (snd (snd (tegra_ehci_hub_control SetPortFeature USB_PORT_FEAT_RESET wIndex (tegra, w)))) =
         ev_count (is_phy_call is_bus_reset) w \<and>
       usecs (snd (snd (tegra_ehci_hub_control SetPortFeature USB_PORT_FEAT_RESET wIndex (tegra, w)))) =
         usecs w + 1000000) \<and>
    \<not> device_ready_for_reset (fst (snd (hsic_reset_if_ready st))) \<and>
    ev_count (is_phy_call is_bus_reset) (snd (snd (hsic_reset_if_ready st))) =
      ev_count (is_phy_call is_bus_reset) (snd st) +
        (if device_ready_for_reset (fst st) then 1 else 0) \<and>
    (\<not> device_ready_for_reset tegra \<and> (\<forall>i<20. inp w (clock w + 2 + i) = 0) \<and>
     inp w (clock w + 22) \<noteq> 0 \<longrightarrow>
       ev_count (is_phy_call is_connected_poll)
           (snd (snd (hsic_reset_if_ready (tegra_hsic_connection_work
              (hsic_presence_poll (hsic_reset_entry tegra w)))))) =
         ev_count (is_phy_call is_connected_poll) w + 21 \<and>
       ev_count is_connected_true
           (snd (snd (hsic_reset_if_ready (tegra_hsic_connection_work
              (hsic_presence_poll (hsic_reset_entry tegra w)))))) =
         ev_count is_connected_true w + 1 \<and>
       ev_count (is_phy_call is_bus_reset)
           (snd (snd (hsic_reset_if_ready (tegra_hsic_connection_work
              (hsic_presence_poll (hsic_reset_entry tegra w)))))) =
         ev_count (is_phy_call is_bus_reset) w + 1)"
proof -
  let ?t0 = "tegra\<lparr>reset_done := (reset_done tegra)(0 := Jiffies_plus_msecs 50)\<rparr>"
  let ?w0 = "ehci_writel ((inp w (clock w) AND NOT PORT_RWC_BITS) AND NOT PORT_PE) (Port_status 0)
          (snd (ehci_readl (Port_status 0) w))"
  have hc: "tegra_ehci_hub_control SetPortFeature USB_PORT_FEAT_RESET wIndex (tegra, w) =
            hsic_port_reset (?t0, ?w0)"
    using assms by (rule hub_control_hsic_reset)
  have entry: "hsic_reset_entry tegra w = (?t0, ?w0)"
    by (simp add: hsic_reset_entry_def)
  have c0: "hsic_port_reset (?t0, ?w0) =
      hsic_reset_if_ready (hsic_presence_poll (hsic_reset_entry tegra w))"
    by (simp add: hsic_port_reset_def entry)
  have w0: "inp ?w0 = inp w" "clock ?w0 = Suc (clock w)" "usecs ?w0 = usecs w"
    "ev_count (is_phy_call is_connected_poll) ?w0 = ev_count (is_phy_call is_connected_poll) w"
    "ev_count (is_phy_call is_bus_reset) ?w0 = ev_count (is_phy_call is_bus_reset) w"
    "ev_count is_connected_true ?w0 = ev_count is_connected_true w"
    by (simp_all add: ehci_writel_def)
  have t0: "device_ready_for_reset ?t0 = device_ready_for_reset tegra" by simp
  let ?R = "hsic_port_reset (?t0, ?w0)"
  have c1: "\<not> device_ready_for_reset (fst (snd ?R))"
    by (rule hsic_port_reset_effect(1))
  have c2: "ev_count (is_phy_call is_connected_poll) (snd (snd ?R)) =
              ev_count (is_phy_call is_connected_poll) w \<and>
            ev_count (is_phy_call is_bus_reset) (snd (snd ?R)) =
              ev_count (is_phy_call is_bus_reset) w + 1"
    if "device_ready_for_reset tegra"
    using hsic_port_reset_effect(3) [of ?t0 ?w0] that by (simp add: w0)
  have c3: "ev_count (is_phy_call is_connected_poll) (snd (snd ?R)) \<le>
              ev_count (is_phy_call is_connected_poll) w + 20 \<and>
            ev_count is_connected_true (snd (snd ?R)) = ev_count is_connected_true w + 1 \<and>
            ev_count (is_phy_call is_bus_reset) (snd (snd ?R)) =
              ev_count (is_phy_call is_bus_reset) w + 1"
    if "\<not> device_ready_for_reset tegra" "\<exists>i<20. inp w (clock w + 2 + i) \<noteq> 0"
    using hsic_port_reset_effect(4) [of ?t0 ?w0] that by (simp add: w0)
  have c4: "fst ?R = 0 \<and>
            ev_count (is_phy_call is_connected_poll) (snd (snd ?R)) =
              ev_count (is_phy_call is_connected_poll) w + 20 \<and>
            ev_count is_connected_true (snd (snd ?R)) = ev_count is_connected_true w \<and>
            ev_count (is_phy_call is_bus_reset) (snd (snd ?R)) =
              ev_count (is_phy_call is_bus_reset) w \<and>
            usecs (snd (snd ?R)) = usecs w + 1000000"
    if "\<not> device_ready_for_reset tegra" "\<forall>i<20. inp w (clock w + 2 + i) = 0"
    using hsic_port_reset_effect(5) [of ?t0 ?w0] that by (simp add: w0)
  have c5: "\<not> device_ready_for_reset (fst (snd (hsic_reset_if_ready st)))"
    "ev_count (is_phy_call is_bus_reset) (snd (snd (hsic_reset_if_ready st))) =
      ev_count (is_phy_call is_bus_reset) (snd st) +
        (if device_ready_for_reset (fst st) then 1 else 0)"
    by (rule hsic_reset_if_ready_effect)+
  let ?S = "hsic_reset_if_ready (tegra_hsic_connection_work
              (hsic_presence_poll (hsic_reset_entry tegra w)))"
  have c6: "ev_count (is_phy_call is_connected_poll) (snd (snd ?S)) =
              ev_count (is_phy_call is_connected_poll) w + 21 \<and>
            ev_count is_connected_true (snd (snd ?S)) = ev_count is_connected_true w + 1 \<and>
            ev_count (is_phy_call is_bus_reset) (snd (snd ?S)) =
              ev_count (is_phy_call is_bus_reset) w + 1"
    if "\<not> device_ready_for_reset tegra" "\<forall>i<20. inp w (clock w + 2 + i) = 0"
      "inp w (clock w + 22) \<noteq> 0"
  proof -
    have a: "\<not> device_ready_for_reset ?t0" using that(1) by simp
    have b: "\<forall>i<20. inp ?w0 (clock ?w0 + 1 + i) = 0" using that(2) by (simp add: w0)
    have c: "inp ?w0 (clock ?w0 + 21) \<noteq> 0" using that(3) by (simp add: w0 add.commute)
    from hsic_reset_after_worker [OF a b c] show ?thesis
      unfolding entry by (simp add: w0)
  qed
  show ?thesis
    unfolding hc c0 [symmetric] using c1 c2 c3 c4 c5 c6 c0 by blast
qed


theorem hsic_port_reset_gate_witness:
  "is_hsic tegra_hsic_idle \<and> uint ((1 :: u16) AND 0xff) = 1 \<and>
   1 \<le> HCS_N_PORTS (hcs_params tegra_hsic_idle) \<and>
   reset_goes_ahead tegra_hsic_idle (inp w_silent (clock w_silent)) \<and>
   \<not> device_ready_for_reset tegra_hsic_idle \<and>
   ev_count (is_phy_call is_connected_poll)
     (snd (snd (tegra_ehci_hub_control SetPortFeature USB_PORT_FEAT_RESET 1
                  (tegra_hsic_idle, w_silent)))) = 20 \<and>
   ev_count (is_phy_call is_bus_reset)
     (snd (snd (tegra_ehci_hub_control SetPortFeature USB_PORT_FEAT_RESET 1
                  (tegra_hsic_idle, w_silent)))) = 0 \<and>
   device_ready_for_reset (tegra_hsic_idle\<lparr>device_ready_for_reset := True\<rparr>) \<and>
   ev_count (is_phy_call is_bus_reset)
     (snd (snd (tegra_ehci_hub_control SetPortFeature USB_PORT_FEAT_RESET 1
                  (tegra_hsic_idle\<lparr>device_ready_for_reset := True\<rparr>, w_silent)))) = 1 \<and>
   reset_goes_ahead tegra_hsic_idle (inp w_device_late (clock w_device_late)) \<and>
   ev_count (is_phy_call is_bus_reset)
     (snd (snd (tegra_ehci_hub_control SetPortFeature USB_PORT_FEAT_RESET 1
                  (tegra_hsic_idle, w_device_late)))) = 0 \<and>
   ev_count (is_phy_call is_connected_poll)
     (snd (snd (hsic_reset_if_ready (tegra_hsic_connection_work
        (hsic_presence_poll (hsic_reset_entry tegra_hsic_idle w_device_late)))))) = 21 \<and>
   ev_count is_connected_true
     (snd (snd (hsic_reset_if_ready (tegra_hsic_connection_work
        (hsic_presence_poll (hsic_reset_entry tegra_hsic_idle w_device_late)))))) = 1 \<and>
   ev_count (is_phy_call is_bus_reset)
     (snd (snd (hsic_reset_if_ready (tegra_hsic_connection_work
        (hsic_presence_poll (hsic_reset_entry tegra_hsic_idle w_device_late)))))) = 1"
proof -
  have z: "ev_count P w_silent = 0" "ev_count P w_device_late = 0" for P
    by (simp_all add: ev_count_def w_silent_def w_device_late_def)
  have h: "is_hsic tegra_hsic_idle" "uint ((1 :: u16) AND 0xff) = 1"
    "1 \<le> HCS_N_PORTS (hcs_params tegra_hsic_idle)"
    "reset_goes_ahead tegra_hsic_idle (inp w_silent (clock w_silent))"
    by (simp_all add: tegra_hsic_idle_def tegra_utmi_idle_def is_hsic_def hsic_phy1_def
        ulpi_inf_type_def hsic_config_def HCS_N_PORTS_def reset_goes_ahead_def w_silent_def)
  have h': "is_hsic (tegra_hsic_idle\<lparr>device_ready_for_reset := True\<rparr>)"
    "1 \<le> HCS_N_PORTS (hcs_params (tegra_hsic_idle\<lparr>device_ready_for_reset := True\<rparr>))"
    "reset_goes_ahead (tegra_hsic_idle\<lparr>device_ready_for_reset := True\<rparr>)
       (inp w_silent (clock w_silent))"
    using h by (simp_all add: is_hsic_def reset_goes_ahead_def)
  have l: "reset_goes_ahead tegra_hsic_idle (inp w_device_late (clock w_device_late))"
    using h(4) by (simp add: w_silent_def w_device_late_def)
  have n: "\<not> device_ready_for_reset tegra_hsic_idle"
    by (simp add: tegra_hsic_idle_def tegra_utmi_idle_def)
  have s: "\<forall>i<20. inp w_silent (clock w_silent + 2 + i) = 0"
    by (simp add: w_silent_def)
  have s': "\<forall>i<20. inp w_device_late (clock w_device_late + 2 + i) = 0"
    "inp w_device_late (clock w_device_late + 22) \<noteq> 0"
    by (simp_all add: w_device_late_def)
  from hsic_port_reset_gate [where st = "(tegra_hsic_idle, w_silent)", OF h, THEN conjunct2] n s
  have a: "ev_count (is_phy_call is_connected_poll)
     (snd (snd (tegra_ehci_hub_control SetPortFeature USB_PORT_FEAT_RESET 1
                  (tegra_hsic_idle, w_silent)))) = 20"
    "ev_count (is_phy_call is_bus_reset)
     (snd (snd (tegra_ehci_hub_control SetPortFeature USB_PORT_FEAT_RESET 1
                  (tegra_hsic_idle, w_silent)))) = 0"
    by (simp_all add: z)
  from hsic_port_reset_gate
    [where st = "(tegra_hsic_idle, w_silent)", OF h'(1) h(2) h'(2,3), THEN conjunct2]
  have b: "ev_count (is_phy_call is_bus_reset)
     (snd (snd (tegra_ehci_hub_control SetPortFeature USB_PORT_FEAT_RESET 1
                  (tegra_hsic_idle\<lparr>device_ready_for_reset := True\<rparr>, w_silent)))) = 1"
    by (simp add: z)
  from hsic_port_reset_gate
    [where st = "(tegra_hsic_idle, w_silent)", OF h(1,2,3) l, THEN conjunct2] n s'
  have c: "ev_count (is_phy_call is_bus_reset)
     (snd (snd (tegra_ehci_hub_control SetPortFeature USB_PORT_FEAT_RESET 1
                  (tegra_hsic_idle, w_device_late)))) = 0"
    "ev_count (is_phy_call is_connected_poll)
     (snd (snd (hsic_reset_if_ready (tegra_hsic_connection_work
        (hsic_presence_poll (hsic_reset_entry tegra_hsic_idle w_device_late)))))) = 21"
    "ev_count is_connected_true
     (snd (snd (hsic_reset_if_ready (tegra_hsic_connection_work
        (hsic_presence_poll (hsic_reset_entry tegra_hsic_idle w_device_late)))))) = 1"
    "ev_count (is_phy_call is_bus_reset)
     (snd (snd (hsic_reset_if_ready (tegra_hsic_connection_work
        (hsic_presence_poll (hsic_reset_entry tegra_hsic_idle w_device_late)))))) = 1"
    by (simp_all add: z)
  from h l n a b c show ?thesis by simp
qed

lemma hub_control_hsic_power:
  "snd (tegra_ehci_hub_control SetPortFeature USB_PORT_FEAT_POWER 1 (tegra_hsic_idle, w_silent)) =
     (tegra_hsic_idle\<lparr>device_ready_for_reset := True\<rparr>,
      w_silent\<lparr>clock := 2, trace := [Phy Phy_bus_connect False 0]\<rparr>)"
  by (simp add: tegra_ehci_hub_control_def hub_control_tail_def hsic_port_feature_def
      SetPortFeature_def ClearPortFeature_def GetPortStatus_def USB_PORT_FEAT_POWER_def
      USB_PORT_FEAT_RESET_def USB_PORT_FEAT_SUSPEND_def USB_PORT_FEAT_ENABLE_def
      tegra_hsic_idle_def tegra_utmi_idle_def is_hsic_def hsic_phy1_def ulpi_inf_type_def
      hsic_config_def HCS_N_PORTS_def HCS_PPC_def w_silent_def Let_def ehci_readl_def
      phy_call_def emit_def PORT_OWNER_def)

text \<open>
  Claim C2 as stated fails twice. On a silent HSIC link with the flag false, in a request
  during which nothing else of the driver runs, the 20 polls all return false and
  \<^verbatim>\<open>tegra_usb_phy_bus_reset\<close> is not called: an exhausted budget does not by itself
  end in a reset. And after a port power-on request, which sets the flag without
  polling, a reset request calls \<^verbatim>\<open>tegra_usb_phy_bus_reset\<close> although
  \<^verbatim>\<open>tegra_usb_phy_is_device_connected\<close> was never called.
\<close>

theorem hsic_bus_reset_not_as_claimed:
  "ev_count (is_phy_call is_connected_poll) (snd (snd c2_reset_after_timeout)) = 20 \<and>
   ev_count is_connected_true (snd (snd c2_reset_after_timeout)) = 0 \<and>
   ev_count (is_phy_call is_bus_reset) (snd (snd c2_reset_after_timeout)) = 0 \<and>
   ev_count (is_phy_call is_connected_poll) (snd (snd c2_power_then_reset)) = 0 \<and>
   ev_count (is_phy_call is_bus_reset) (snd (snd c2_power_then_reset)) = 1"
proof -
  have z: "ev_count P w_silent = 0" for P by (simp add: ev_count_def w_silent_def)
  have h: "is_hsic tegra_hsic_idle" "uint ((1 :: u16) AND 0xff) = 1"
    "1 \<le> HCS_N_PORTS (hcs_params tegra_hsic_idle)"
    "reset_goes_ahead tegra_hsic_idle (inp w_silent (clock w_silent))"
    by (simp_all add: tegra_hsic_idle_def tegra_utmi_idle_def is_hsic_def hsic_phy1_def
        ulpi_inf_type_def hsic_config_def HCS_N_PORTS_def reset_goes_ahead_def w_silent_def)
  let ?w0 = "ehci_writel ((inp w_silent (clock w_silent) AND NOT PORT_RWC_BITS) AND NOT PORT_PE)
               (Port_status 0) (snd (ehci_readl (Port_status 0) w_silent))"
  let ?t0 = "tegra_hsic_idle\<lparr>reset_done := (reset_done tegra_hsic_idle)(0 := Jiffies_plus_msecs 50)\<rparr>"
  have first: "c2_reset_after_timeout = hsic_port_reset (?t0, ?w0)"
    unfolding c2_reset_after_timeout_def using h by (rule hub_control_hsic_reset)
  have n: "\<not> device_ready_for_reset ?t0"
    by (simp add: tegra_hsic_idle_def tegra_utmi_idle_def)
  have s: "\<forall>i<20. inp ?w0 (clock ?w0 + 1 + i) = 0"
    by (simp add: w_silent_def)
  have z0: "ev_count P ?w0 = (if P (Ehci_writel (Port_status 0) 0) then 1 else 0)" for P
    by (simp add: z) (simp add: w_silent_def)
  from hsic_port_reset_effect(5) [of ?t0 ?w0, OF n s, folded first]
  have a: "ev_count (is_phy_call is_connected_poll) (snd (snd c2_reset_after_timeout)) = 20"
    "ev_count is_connected_true (snd (snd c2_reset_after_timeout)) = 0"
    "ev_count (is_phy_call is_bus_reset) (snd (snd c2_reset_after_timeout)) = 0"
    by (simp_all add: z0 z)
  let ?t1 = "tegra_hsic_idle\<lparr>device_ready_for_reset := True\<rparr>"
  let ?w1 = "w_silent\<lparr>clock := 2, trace := [Phy Phy_bus_connect False 0]\<rparr>"
  have h1: "is_hsic ?t1" "1 \<le> HCS_N_PORTS (hcs_params ?t1)"
    "reset_goes_ahead ?t1 (inp ?w1 (clock ?w1))"
    using h by (simp_all add: is_hsic_def reset_goes_ahead_def w_silent_def)
  let ?w2 = "ehci_writel ((inp ?w1 (clock ?w1) AND NOT PORT_RWC_BITS) AND NOT PORT_PE)
               (Port_status 0) (snd (ehci_readl (Port_status 0) ?w1))"
  let ?t2 = "?t1\<lparr>reset_done := (reset_done ?t1)(0 := Jiffies_plus_msecs 50)\<rparr>"
  have second: "c2_power_then_reset = hsic_port_reset (?t2, ?w2)"
    unfolding c2_power_then_reset_def hub_control_hsic_power
    using h1(1) h(2) h1(2,3) by (rule hub_control_hsic_reset)
  have r: "device_ready_for_reset ?t2" by simp
  have z2: "ev_count (is_phy_call is_connected_poll) ?w2 = 0"
    "ev_count (is_phy_call is_bus_reset) ?w2 = 0"
    by (simp_all add: ev_count_def ehci_writel_def ehci_readl_def emit_def w_silent_def)
  from hsic_port_reset_effect(3) [of ?t2 ?w2, OF r, folded second]
  have b: "ev_count (is_phy_call is_connected_poll) (snd (snd c2_power_then_reset)) = 0"
    "ev_count (is_phy_call is_bus_reset) (snd (snd c2_power_then_reset)) = 1"
    by (simp_all add: z2) (simp_all add: ev_count_def)
  from a b show ?thesis by simp
qed

subsection \<open>Runs of the driver and the presence flag\<close>




text \<open>
  A monitor on the trace. Its first component tells whether presence of the device was
  confirmed since the last call of \<^verbatim>\<open>tegra_usb_phy_bus_reset\<close> (or since the start): by
  a call of \<^verbatim>\<open>tegra_usb_phy_bus_connect\<close> or by a call of
  \<^verbatim>\<open>tegra_usb_phy_is_device_connected\<close> that returned true. Its second component
  tells whether every call of \<^verbatim>\<open>tegra_usb_phy_bus_reset\<close> so far was made with
  \<^verbatim>\<open>device_ready_for_reset\<close> true and after such a confirmation. \<^verbatim>\<open>presence_ok\<close>
  adds that the flag is true only after a confirmation, and \<^verbatim>\<open>reset_step\<close> relates
  the states before and after one call of the driver.
\<close>

definition presence_step :: "bool \<times> bool \<Rightarrow> event \<Rightarrow> bool \<times> bool" where
  "presence_step s e =
     (case e of
        Phy op ready ret \<Rightarrow>
          (case op of
             Phy_bus_reset \<Rightarrow> (False, snd s \<and> fst s \<and> ready)
           | Phy_bus_connect \<Rightarrow> (True, snd s)
           | Phy_is_device_connected \<Rightarrow> (fst s \<or> ret \<noteq> 0, snd s)
           | _ \<Rightarrow> s)
      | _ \<Rightarrow> s)"

definition presence :: "world \<Rightarrow> bool \<times> bool" where
  "presence w = foldl presence_step (False, True) (trace w)"

definition is_bus_reset_unready :: "event \<Rightarrow> bool" where
  "is_bus_reset_unready e =
     (case e of Phy op ready ret \<Rightarrow> op = Phy_bus_reset \<and> \<not> ready | _ \<Rightarrow> False)"




lemma presence_step_simps [simp]:
  "presence_step s (Phy Phy_bus_reset ready ret) = (False, snd s \<and> fst s \<and> ready)"
  "presence_step s (Phy Phy_bus_connect ready ret) = (True, snd s)"
  "presence_step s (Phy Phy_is_device_connected ready ret) = (fst s \<or> ret \<noteq> 0, snd s)"
  "presence_step s (Phy Phy_bus_idle ready ret) = s"
  "presence_step s (Phy Phy_power_on ready ret) = s"
  "presence_step s (Phy Phy_power_off ready ret) = s"
  "presence_step s (Phy Phy_set_phy_clock ready ret) = s"
  "presence_step s (Phy Phy_preresume ready ret) = s"
  "presence_step s (Phy Phy_postresume ready ret) = s"
  "presence_step s (Phy (Phy_restore_start v) ready ret) = s"
  "presence_step s (Phy Phy_restore_end ready ret) = s"
  "presence_step s (Ehci_writel reg v) = s"
  "presence_step s (Pr_err m) = s"
  "presence_step s (Call m) = s"
  "presence_step s (Clk_enable m) = s"
  "presence_step s (Clk_disable m) = s"
  by (simp_all add: presence_step_def)

lemma is_bus_reset_unready_simps [simp]:
  "is_bus_reset_unready (Phy op ready ret) = (op = Phy_bus_reset \<and> \<not> ready)"
  "is_bus_reset_unready (Ehci_writel reg v) = False"
  "is_bus_reset_unready (Pr_err m) = False"
  "is_bus_reset_unready (Call m) = False"
  "is_bus_reset_unready (Clk_enable m) = False"
  "is_bus_reset_unready (Clk_disable m) = False"
  by (simp_all add: is_bus_reset_unready_def)

lemma presence_prims [simp]:
  "presence (emit e w) = presence_step (presence w) e"
  "presence (ehci_writel v reg w) = presence w"
  "presence (snd (ehci_readl reg w)) = presence w"
  "presence (snd (handshake reg msk d usec w)) = presence w"
  "presence (handshake_logged reg msk d usec msg w) = presence w"
  "presence (msleep n w) = presence w"
  "presence (udelay n w) = presence w"
  "presence (mdelay n w) = presence w"
  "presence (kernel_call name w) = presence w"
  "presence (snd (kernel_call_ret name w)) = presence w"
  "presence (clk_enable name w) = presence w"
  "presence (clk_disable name w) = presence w"
  "presence (phy_call_void op tegra w) =
     presence_step (presence w) (Phy op (device_ready_for_reset tegra) 0)"
  "presence (snd (phy_call op tegra w)) =
     presence_step (presence w) (Phy op (device_ready_for_reset tegra) (inp w (clock w)))"
  "presence (w\<lparr>clock := k\<rparr>) = presence w"
  "presence (w\<lparr>usecs := u\<rparr>) = presence w"
  by (simp_all add: presence_def emit_def ehci_writel_def ehci_readl_def handshake_def
      handshake_logged_def msleep_def udelay_def mdelay_def kernel_call_def kernel_call_ret_def
      clk_enable_def clk_disable_def phy_call_void_def phy_call_def split_beta)


lemma foldl_presence_polls_false [simp]:
  "foldl presence_step s (replicate k (Phy Phy_is_device_connected ready 0)) = s"
  by (induction k) simp_all




lemma hsic_port_reset_flag [simp]:
  "device_ready_for_reset (fst (snd (hsic_port_reset (tegra, w)))) = False"
  using hsic_port_reset_effect(1) [of tegra w] by simp


















end
